theory Spec2Isabelle
  imports Main "HOL-Library.Word"
begin

section \<open>Go values the loader works with\<close>

text \<open>
  The loader (loader.go) reads two files through the Go standard library and keeps the parsed
  key pair behind a pointer. The standard library is not part of the repository; the values
  it hands to the loader are modelled by the small types below.

  An \<open>error\<close> value is opaque to the loader: it is only compared with \<open>nil\<close> and passed on.
\<close>

datatype go_error = Error string

text \<open>
  \<open>time.Time\<close> as \<open>os.Stat\<close> produces it: seconds since the Unix epoch (an int64) and the
  nanoseconds within the second. \<open>UnixMilli\<close> is Go's
  \<^verbatim>\<open>t.unixSec()*1e3 + int64(t.nsec())/1e6\<close> on int64, so the arithmetic wraps at 64 bits.
\<close>

datatype time = Time (unixSec: "64 word") (nsec: nat)

definition UnixMilli :: "time \<Rightarrow> 64 word" where
  "UnixMilli t = unixSec t * 1000 + of_nat (nsec t div 1000000)"

text \<open>
  What the spec compares is the time truncated to milliseconds. As a number without
  bound: the nanoseconds since the epoch (the seconds read as a signed int64), divided by
  a million and rounded down. \<open>fits_int64\<close> says that this number of milliseconds is an
  int64, which is where Go documents \<open>UnixMilli\<close> (dates within about 292 million years
  of 1970).
\<close>

definition unix_nanos :: "time \<Rightarrow> int" where
  "unix_nanos t = sint (unixSec t) * 1000000000 + int (nsec t)"

definition truncate_ms :: "time \<Rightarrow> int" where
  "truncate_ms t = unix_nanos t div 1000000"

definition fits_int64 :: "time \<Rightarrow> bool" where
  "fits_int64 t \<longleftrightarrow> - (2 ^ 63) \<le> truncate_ms t \<and> truncate_ms t < 2 ^ 63"

text \<open>\<open>os.FileInfo\<close>: the loader only calls \<open>ModTime()\<close> on it.\<close>

record FileInfo =
  ModTime :: time

text \<open>\<open>tls.Certificate\<close>: the parsed certificate chain and private key, opaque to the loader.\<close>

datatype tls_Certificate = Certificate (chain: "string list") (privateKey: string)

text \<open>\<open>tls.ClientHelloInfo\<close>, the argument of \<open>GetCertificate\<close>.\<close>

datatype ClientHelloInfo = ClientHelloInfo (ServerName: string)

text \<open>A function value (a closure), identified by a name; \<open>None\<close> of \<open>func option\<close> is \<open>nil\<close>.\<close>

datatype func = Closure string

section \<open>The data model of loader.go\<close>

text \<open>
  Modelled from the spec: the declaration of \<open>TlsCertificateLoaderConfig\<close> is not among the
  source files. Its fields are the ones loader.go reads (\<open>CertificatePath\<close>, \<open>KeyPath\<close>,
  \<open>CheckReloadPeriod\<close>, \<open>OnReload\<close>, \<open>OnError\<close>) and the spec's Configuration lists: two
  paths, a period (a \<open>time.Duration\<close>, compared with 0 only), a callback without arguments
  and a callback taking the error.
\<close>

record TlsCertificateLoaderConfig =
  CertificatePath :: string
  KeyPath :: string
  CheckReloadPeriod :: int
  OnReload :: "func option"
  OnError :: "func option"

text \<open>
  The struct \<open>TlsCertificateLoader\<close> (loader.go, lines 13-34). \<open>closeChan\<close> is a reference to
  a channel and \<open>certificate\<close> a pointer to a \<open>tls.Certificate\<close>: both are indices into the
  runtime below, and \<open>None\<close> is \<open>nil\<close>. The field \<open>mu\<close> is set once to a fresh mutex and
  never reassigned; the model keeps no mutex state and records every \<open>Lock\<close> and \<open>Unlock\<close>
  as an event instead.
\<close>

record TlsCertificateLoader =
  config :: TlsCertificateLoaderConfig
  closed :: bool
  closeChan :: "nat option"
  certificate :: "nat option"
  certModTime :: time
  keyModTime :: time

text \<open>
  What a call does beyond changing the struct is recorded, in program order, as events:
  the two kinds of file access, the mutex operations, the stores to the fields of the
  struct, the channel and goroutine operations and the invocations of the two callbacks.
\<close>

datatype event =
    EvStat string
  | EvLoadX509KeyPair string string
  | EvLock
  | EvUnlock
  | EvStoreCertModTime time
  | EvStoreKeyModTime time
  | EvStoreCertificate "nat option"
  | EvStoreClosed bool
  | EvMakeChan nat
  | EvGoRun
  | EvSend nat
  | EvCall0 func
  | EvCall1 func go_error

text \<open>A buffered channel of \<open>struct{}\<close>: only the number of buffered elements matters.\<close>

record chan =
  capacity :: nat
  buffered :: nat

text \<open>
  The part of the Go runtime the loader touches: the allocated \<open>tls.Certificate\<close> values
  (a pointer is an index, allocation appends, nothing is freed while referenced), the
  channels, and the events so far.
\<close>

record runtime =
  heap :: "tls_Certificate list"
  chans :: "chan list"
  trace :: "event list"

text \<open>
  The file system is outside the program and may change between any two calls. It is an
  oracle: what \<open>os.Stat\<close> and \<open>tls.LoadX509KeyPair\<close> answer when called as the n-th event.
  Go returns a pair of a value and an error; the sum type has \<open>Inl\<close> for \<open>err != nil\<close>.
\<close>

record world =
  stat_at :: "nat \<Rightarrow> string \<Rightarrow> go_error + FileInfo"
  load_at :: "nat \<Rightarrow> string \<Rightarrow> string \<Rightarrow> go_error + tls_Certificate"

text \<open>
  The ways a call can fail to return: calling a \<open>nil\<close> function value panics, sending on a
  \<open>nil\<close> channel blocks forever, and sending on a channel whose buffer is full blocks until
  somebody receives.
\<close>

datatype fault = CallOfNilFunc | SendOnNilChan | SendOnFullChan

section \<open>Primitive operations\<close>

definition emit :: "event \<Rightarrow> runtime \<Rightarrow> runtime" where
  "emit e rt = rt\<lparr>trace := trace rt @ [e]\<rparr>"

definition os_Stat :: "world \<Rightarrow> string \<Rightarrow> runtime \<Rightarrow> (go_error + FileInfo) \<times> runtime" where
  "os_Stat w name rt = (stat_at w (length (trace rt)) name, emit (EvStat name) rt)"

definition tls_LoadX509KeyPair ::
  "world \<Rightarrow> string \<Rightarrow> string \<Rightarrow> runtime \<Rightarrow> (go_error + tls_Certificate) \<times> runtime" where
  "tls_LoadX509KeyPair w certFile keyFile rt =
     (load_at w (length (trace rt)) certFile keyFile, emit (EvLoadX509KeyPair certFile keyFile) rt)"

text \<open>\<^verbatim>\<open>&certificate\<close>: the address of a fresh variable holding the parsed value.\<close>

definition address_of :: "tls_Certificate \<Rightarrow> runtime \<Rightarrow> nat option \<times> runtime" where
  "address_of c rt = (Some (length (heap rt)), rt\<lparr>heap := heap rt @ [c]\<rparr>)"

text \<open>\<^verbatim>\<open>make(chan struct{}, n)\<close>.\<close>

definition make_chan :: "nat \<Rightarrow> runtime \<Rightarrow> nat option \<times> runtime" where
  "make_chan n rt =
     (Some (length (chans rt)),
      emit (EvMakeChan (length (chans rt)))
        (rt\<lparr>chans := chans rt @ [\<lparr>capacity = n, buffered = 0\<rparr>]\<rparr>))"

text \<open>
  \<^verbatim>\<open>ch <- struct{}{}\<close> with nobody receiving: the element goes to the buffer when there is
  room. A reference to a channel that was never made does not occur in Go; the model
  treats it as a channel without room.
\<close>

definition chan_send :: "nat option \<Rightarrow> runtime \<Rightarrow> fault + runtime" where
  "chan_send ch rt =
     (case ch of
        None \<Rightarrow> Inl SendOnNilChan
      | Some c \<Rightarrow>
          if c < length (chans rt) \<and> buffered (chans rt ! c) < capacity (chans rt ! c)
          then Inr (emit (EvSend c)
                 (rt\<lparr>chans := (chans rt)[c := (chans rt ! c)\<lparr>buffered := Suc (buffered (chans rt ! c))\<rparr>]\<rparr>))
          else Inl SendOnFullChan)"

definition mu_Lock :: "runtime \<Rightarrow> runtime" where
  "mu_Lock rt = emit EvLock rt"

definition mu_Unlock :: "runtime \<Rightarrow> runtime" where
  "mu_Unlock rt = emit EvUnlock rt"

text \<open>\<^verbatim>\<open>go loader.run()\<close>.\<close>

definition go_run :: "runtime \<Rightarrow> runtime" where
  "go_run rt = emit EvGoRun rt"

text \<open>Calling a function value: a panic when it is \<open>nil\<close>.\<close>

definition call0 :: "func option \<Rightarrow> runtime \<Rightarrow> fault + runtime" where
  "call0 f rt = (case f of None \<Rightarrow> Inl CallOfNilFunc | Some g \<Rightarrow> Inr (emit (EvCall0 g) rt))"

definition call1 :: "func option \<Rightarrow> go_error \<Rightarrow> runtime \<Rightarrow> fault + runtime" where
  "call1 f err rt = (case f of None \<Rightarrow> Inl CallOfNilFunc | Some g \<Rightarrow> Inr (emit (EvCall1 g err) rt))"

text \<open>Stores to the fields of the struct.\<close>

definition store_certModTime ::
  "time \<Rightarrow> TlsCertificateLoader \<times> runtime \<Rightarrow> TlsCertificateLoader \<times> runtime" where
  "store_certModTime t s = ((fst s)\<lparr>certModTime := t\<rparr>, emit (EvStoreCertModTime t) (snd s))"

definition store_keyModTime ::
  "time \<Rightarrow> TlsCertificateLoader \<times> runtime \<Rightarrow> TlsCertificateLoader \<times> runtime" where
  "store_keyModTime t s = ((fst s)\<lparr>keyModTime := t\<rparr>, emit (EvStoreKeyModTime t) (snd s))"

definition store_certificate ::
  "nat option \<Rightarrow> TlsCertificateLoader \<times> runtime \<Rightarrow> TlsCertificateLoader \<times> runtime" where
  "store_certificate p s = ((fst s)\<lparr>certificate := p\<rparr>, emit (EvStoreCertificate p) (snd s))"

definition store_closed ::
  "bool \<Rightarrow> TlsCertificateLoader \<times> runtime \<Rightarrow> TlsCertificateLoader \<times> runtime" where
  "store_closed b s = ((fst s)\<lparr>closed := b\<rparr>, emit (EvStoreClosed b) (snd s))"

section \<open>The operations of loader.go\<close>

text \<open>
  \<open>NewTlsCertificateLoader\<close> (lines 46-85). The result is Go's pair: \<open>(nil, err)\<close> is
  \<open>(None, Some err)\<close> and \<open>(loader, nil)\<close> is \<open>(Some loader, None)\<close>.
\<close>

definition NewTlsCertificateLoader ::
  "world \<Rightarrow> TlsCertificateLoaderConfig \<Rightarrow> runtime \<Rightarrow>
     (TlsCertificateLoader option \<times> go_error option) \<times> runtime" where
  "NewTlsCertificateLoader w cfg rt =
     (case os_Stat w (CertificatePath cfg) rt of
        (Inl err, rt1) \<Rightarrow> ((None, Some err), rt1)
      | (Inr statCert, rt1) \<Rightarrow>
          (let certModTime' = ModTime statCert in
           case os_Stat w (KeyPath cfg) rt1 of
             (Inl err, rt2) \<Rightarrow> ((None, Some err), rt2)
           | (Inr statKey, rt2) \<Rightarrow>
               (let keyModTime' = ModTime statKey in
                case tls_LoadX509KeyPair w (CertificatePath cfg) (KeyPath cfg) rt2 of
                  (Inl err, rt3) \<Rightarrow> ((None, Some err), rt3)
                | (Inr certificate', rt3) \<Rightarrow>
                    (let (p, rt4) = address_of certificate' rt3;
                         loader = \<lparr>config = cfg, closed = False, closeChan = None,
                                   certificate = p, certModTime = certModTime',
                                   keyModTime = keyModTime'\<rparr>
                     in if CheckReloadPeriod cfg > 0
                        then (let (ch, rt5) = make_chan 1 rt4;
                                  loader' = loader\<lparr>closeChan := ch\<rparr>;
                                  rt6 = go_run rt5
                              in ((Some loader', None), rt6))
                        else ((Some loader, None), rt4)))))"

text \<open>\<open>IsClosed\<close> (lines 89-94); the deferred \<open>Unlock\<close> runs after the result is read.\<close>

definition IsClosed :: "TlsCertificateLoader \<Rightarrow> runtime \<Rightarrow> bool \<times> runtime" where
  "IsClosed loader rt =
     (let rt1 = mu_Lock rt;
          result = closed loader;
          rt2 = mu_Unlock rt1
      in (result, rt2))"

text \<open>\<open>Close\<close> (lines 97-109).\<close>

definition Close :: "TlsCertificateLoader \<Rightarrow> runtime \<Rightarrow> fault + (TlsCertificateLoader \<times> runtime)" where
  "Close loader rt =
     (let rt1 = mu_Lock rt;
          wasClosed = closed loader;
          (loader1, rt2) = store_closed True (loader, rt1);
          rt3 = mu_Unlock rt2
      in if \<not> wasClosed \<and> closeChan loader1 \<noteq> None
         then (case chan_send (closeChan loader1) rt3 of
                 Inl f \<Rightarrow> Inl f
               | Inr rt4 \<Rightarrow> Inr (loader1, rt4))
         else Inr (loader1, rt3))"

text \<open>
  The block \<^verbatim>\<open>if loader.config.OnError != nil { loader.config.OnError(err) }; return\<close>,
  which \<open>check\<close> has three times (lines 119-124, 130-135 and 148-153).
\<close>

definition report_error ::
  "go_error \<Rightarrow> TlsCertificateLoader \<Rightarrow> runtime \<Rightarrow> fault + (TlsCertificateLoader \<times> runtime)" where
  "report_error err loader rt =
     (if OnError (config loader) \<noteq> None
      then (case call1 (OnError (config loader)) err rt of
              Inl f \<Rightarrow> Inl f
            | Inr rt' \<Rightarrow> Inr (loader, rt'))
      else Inr (loader, rt))"

text \<open>\<open>check\<close> (lines 114-167).\<close>

definition check :: "world \<Rightarrow> TlsCertificateLoader \<Rightarrow> runtime \<Rightarrow> fault + (TlsCertificateLoader \<times> runtime)" where
  "check w loader rt =
     (case os_Stat w (CertificatePath (config loader)) rt of
        (Inl err, rt1) \<Rightarrow> report_error err loader rt1
      | (Inr statCert, rt1) \<Rightarrow>
          (let certModTime' = ModTime statCert in
           case os_Stat w (KeyPath (config loader)) rt1 of
             (Inl err, rt2) \<Rightarrow> report_error err loader rt2
           | (Inr statKey, rt2) \<Rightarrow>
               (let keyModTime' = ModTime statKey in
                if UnixMilli keyModTime' = UnixMilli (keyModTime loader)
                   \<and> UnixMilli certModTime' = UnixMilli (certModTime loader)
                then Inr (loader, rt2)
                else
                  (case tls_LoadX509KeyPair w (CertificatePath (config loader))
                          (KeyPath (config loader)) rt2 of
                     (Inl err, rt3) \<Rightarrow> report_error err loader rt3
                   | (Inr certificate', rt3) \<Rightarrow>
                       (let (loader1, rt4) = store_certModTime certModTime' (loader, rt3);
                            (loader2, rt5) = store_keyModTime keyModTime' (loader1, rt4);
                            rt6 = mu_Lock rt5;
                            (p, rt7) = address_of certificate' rt6;
                            (loader3, rt8) = store_certificate p (loader2, rt7);
                            rt9 = mu_Unlock rt8
                        in if OnReload (config loader3) \<noteq> None
                           then (case call0 (OnReload (config loader3)) rt9 of
                                   Inl f \<Rightarrow> Inl f
                                 | Inr rt10 \<Rightarrow> Inr (loader3, rt10))
                           else Inr (loader3, rt9))))))"

text \<open>
  \<open>GetCertificate\<close> (lines 184-189): Go's pair of the pointer and a \<open>nil\<close> error. The
  argument has no name in the source.
\<close>

definition GetCertificate ::
  "ClientHelloInfo option \<Rightarrow> TlsCertificateLoader \<Rightarrow> runtime \<Rightarrow>
     (nat option \<times> go_error option) \<times> runtime" where
  "GetCertificate info loader rt =
     (let rt1 = mu_Lock rt;
          result = (certificate loader, None);
          rt2 = mu_Unlock rt1
      in (result, rt2))"

text \<open>
  \<open>run\<close> (lines 170-179) waits in a \<open>select\<close> for the timer, and then calls \<open>check\<close>, or
  for an element of \<open>closeChan\<close>, and then returns. The receive of the second case: it
  can be taken only when the channel holds an element.
\<close>

definition chan_recv :: "nat option \<Rightarrow> runtime \<Rightarrow> runtime option" where
  "chan_recv ch rt =
     (case ch of
        None \<Rightarrow> None
      | Some c \<Rightarrow>
          if c < length (chans rt) \<and> 0 < buffered (chans rt ! c)
          then Some (rt\<lparr>chans := (chans rt)[c := (chans rt ! c)\<lparr>buffered := buffered (chans rt ! c) - 1\<rparr>]\<rparr>)
          else None)"

section \<open>Sequences of calls on one loader\<close>

text \<open>
  What can happen to a loader after its construction, one call at a time: a check cycle
  (from \<open>run\<close> when the timer fires, or called directly as the tests do), the receive of
  \<open>run\<close>, and the three exported methods called by a client. A receive that cannot be
  taken leaves everything as it is.
\<close>

datatype step =
    Check
  | Receive
  | CallClose
  | CallIsClosed
  | CallGetCertificate "ClientHelloInfo option"

definition exec_step ::
  "world \<Rightarrow> step \<Rightarrow> TlsCertificateLoader \<Rightarrow> runtime \<Rightarrow> fault + (TlsCertificateLoader \<times> runtime)" where
  "exec_step w st loader rt =
     (case st of
        Check \<Rightarrow> check w loader rt
      | Receive \<Rightarrow>
          (case chan_recv (closeChan loader) rt of
             None \<Rightarrow> Inr (loader, rt)
           | Some rt' \<Rightarrow> Inr (loader, rt'))
      | CallClose \<Rightarrow> Close loader rt
      | CallIsClosed \<Rightarrow> Inr (loader, snd (IsClosed loader rt))
      | CallGetCertificate info \<Rightarrow> Inr (loader, snd (GetCertificate info loader rt)))"

fun exec_steps ::
  "world \<Rightarrow> step list \<Rightarrow> TlsCertificateLoader \<Rightarrow> runtime \<Rightarrow> fault + (TlsCertificateLoader \<times> runtime)" where
  "exec_steps w [] loader rt = Inr (loader, rt)"
| "exec_steps w (st # sts) loader rt =
     (case exec_step w st loader rt of
        Inl f \<Rightarrow> Inl f
      | Inr (loader', rt') \<Rightarrow> exec_steps w sts loader' rt')"

section \<open>Reading the events\<close>

text \<open>The events a call added: those of \<open>rt'\<close> after the ones \<open>rt\<close> already had.\<close>

definition new_events :: "runtime \<Rightarrow> runtime \<Rightarrow> event list" where
  "new_events rt rt' = drop (length (trace rt)) (trace rt')"

fun is_io :: "event \<Rightarrow> bool" where
  "is_io (EvStat name) = True"
| "is_io (EvLoadX509KeyPair certFile keyFile) = True"
| "is_io e = False"

fun is_call :: "event \<Rightarrow> bool" where
  "is_call (EvCall0 f) = True"
| "is_call (EvCall1 f err) = True"
| "is_call e = False"

fun is_store :: "event \<Rightarrow> bool" where
  "is_store (EvStoreCertModTime t) = True"
| "is_store (EvStoreKeyModTime t) = True"
| "is_store (EvStoreCertificate p) = True"
| "is_store (EvStoreClosed b) = True"
| "is_store e = False"

fun is_send :: "event \<Rightarrow> bool" where
  "is_send (EvSend c) = True"
| "is_send e = False"

text \<open>Whether the mutex is held after a sequence of events, given whether it was before.\<close>

fun lock_held :: "bool \<Rightarrow> event list \<Rightarrow> bool" where
  "lock_held h [] = h"
| "lock_held h (EvLock # es) = lock_held True es"
| "lock_held h (EvUnlock # es) = lock_held False es"
| "lock_held h (e # es) = lock_held h es"

text \<open>The events that happen while the mutex is held.\<close>

fun critical :: "bool \<Rightarrow> event list \<Rightarrow> event list" where
  "critical h [] = []"
| "critical h (EvLock # es) = critical True es"
| "critical h (EvUnlock # es) = critical False es"
| "critical h (e # es) = (if h then e # critical h es else critical h es)"

text \<open>
  The certificates that the successful calls of \<open>tls.LoadX509KeyPair\<close> in a sequence of
  events returned, the first event being the n-th.
\<close>

fun loads_of :: "world \<Rightarrow> nat \<Rightarrow> event list \<Rightarrow> tls_Certificate list" where
  "loads_of w n [] = []"
| "loads_of w n (EvLoadX509KeyPair certFile keyFile # es) =
     (case load_at w n certFile keyFile of
        Inl err \<Rightarrow> loads_of w (Suc n) es
      | Inr c \<Rightarrow> c # loads_of w (Suc n) es)"
| "loads_of w n (e # es) = loads_of w (Suc n) es"

text \<open>
  What the three file accesses of a check cycle (or of the constructor) that starts in \<open>rt\<close>
  are answered: the stat of the certificate file is the next event, the stat of the key
  file the one after it, and the load the third.
\<close>

definition cert_stat :: "world \<Rightarrow> TlsCertificateLoaderConfig \<Rightarrow> runtime \<Rightarrow> go_error + FileInfo" where
  "cert_stat w cfg rt = stat_at w (length (trace rt)) (CertificatePath cfg)"

definition key_stat :: "world \<Rightarrow> TlsCertificateLoaderConfig \<Rightarrow> runtime \<Rightarrow> go_error + FileInfo" where
  "key_stat w cfg rt = stat_at w (Suc (length (trace rt))) (KeyPath cfg)"

definition pair_load :: "world \<Rightarrow> TlsCertificateLoaderConfig \<Rightarrow> runtime \<Rightarrow> go_error + tls_Certificate" where
  "pair_load w cfg rt = load_at w (Suc (Suc (length (trace rt)))) (CertificatePath cfg) (KeyPath cfg)"

text \<open>The call events of a reported error: none when \<open>OnError\<close> is \<open>nil\<close>.\<close>

definition error_calls :: "TlsCertificateLoaderConfig \<Rightarrow> go_error \<Rightarrow> event list" where
  "error_calls cfg err = (case OnError cfg of None \<Rightarrow> [] | Some f \<Rightarrow> [EvCall1 f err])"

definition reload_calls :: "TlsCertificateLoaderConfig \<Rightarrow> event list" where
  "reload_calls cfg = (case OnReload cfg of None \<Rightarrow> [] | Some f \<Rightarrow> [EvCall0 f])"

text \<open>
  The invariant of a constructed loader, for the events since the n-th: the certificate
  pointer is not \<open>nil\<close> and points to a value that a successful load returned; the close
  channel, when there is one, has capacity 1 and is empty while the loader is open; and
  one element has been sent exactly when the loader is closed and has a channel.
\<close>

definition loader_inv :: "world \<Rightarrow> nat \<Rightarrow> TlsCertificateLoader \<Rightarrow> runtime \<Rightarrow> bool" where
  "loader_inv w n loader rt \<longleftrightarrow>
     n \<le> length (trace rt)
     \<and> (case certificate loader of
          None \<Rightarrow> False
        | Some a \<Rightarrow> a < length (heap rt) \<and> heap rt ! a \<in> set (loads_of w 0 (trace rt)))
     \<and> (case closeChan loader of
          None \<Rightarrow> True
        | Some c \<Rightarrow> c < length (chans rt) \<and> capacity (chans rt ! c) = 1
                     \<and> (\<not> closed loader \<longrightarrow> buffered (chans rt ! c) = 0))
     \<and> length (filter is_send (drop n (trace rt)))
         = (if closed loader \<and> closeChan loader \<noteq> None then 1 else 0)"

text \<open>The same loader with no callback configured.\<close>

definition without_callbacks :: "TlsCertificateLoader \<Rightarrow> TlsCertificateLoader" where
  "without_callbacks loader = loader\<lparr>config := (config loader)\<lparr>OnReload := None, OnError := None\<rparr>\<rparr>"

section \<open>A reader beside a check cycle\<close>

text \<open>
  Two goroutines on one mutex: the one that runs a check cycle and a reader that calls
  \<open>GetCertificate\<close>. Each has the events it still has to perform, in program order, and
  the mutex is free or held by one of them. A goroutine moves by performing its next
  event; \<open>Lock\<close> can be performed only while the mutex is free (\<open>sync.Mutex\<close>), and a
  goroutine that cannot move stays where it is. A schedule says who moves next.
\<close>

datatype goroutine = Reloader | Reader

record interleaving =
  reload_todo :: "event list"
  read_todo :: "event list"
  holder :: "goroutine option"

definition todo :: "goroutine \<Rightarrow> interleaving \<Rightarrow> event list" where
  "todo g c = (case g of Reloader \<Rightarrow> reload_todo c | Reader \<Rightarrow> read_todo c)"

definition set_todo :: "goroutine \<Rightarrow> event list \<Rightarrow> interleaving \<Rightarrow> interleaving" where
  "set_todo g es c =
     (case g of Reloader \<Rightarrow> c\<lparr>reload_todo := es\<rparr> | Reader \<Rightarrow> c\<lparr>read_todo := es\<rparr>)"

definition move :: "goroutine \<Rightarrow> interleaving \<Rightarrow> interleaving" where
  "move g c =
     (case todo g c of
        [] \<Rightarrow> c
      | e # es \<Rightarrow>
          if e = EvLock
          then (if holder c = None then (set_todo g es c)\<lparr>holder := Some g\<rparr> else c)
          else if e = EvUnlock then (set_todo g es c)\<lparr>holder := None\<rparr>
          else set_todo g es c)"

fun schedule :: "goroutine list \<Rightarrow> interleaving \<Rightarrow> interleaving" where
  "schedule [] c = c"
| "schedule (g # gs) c = schedule gs (move g c)"

text \<open>A goroutine waits when its next event is \<open>Lock\<close> and the mutex is held.\<close>

definition waits :: "goroutine \<Rightarrow> interleaving \<Rightarrow> bool" where
  "waits g c \<longleftrightarrow>
     (case todo g c of [] \<Rightarrow> False | e # es \<Rightarrow> e = EvLock \<and> holder c \<noteq> None)"

text \<open>The store of the certificate pointer.\<close>

fun is_swap :: "event \<Rightarrow> bool" where
  "is_swap (EvStoreCertificate p) = True"
| "is_swap e = False"

text \<open>
  A sequence of events that takes the mutex only when it does not hold it, releases it
  only when it holds it, does nothing but store the certificate pointer while it holds it,
  and does not hold it at the end.
\<close>

fun swap_only :: "bool \<Rightarrow> event list \<Rightarrow> bool" where
  "swap_only h [] = (\<not> h)"
| "swap_only h (EvLock # es) = (\<not> h \<and> swap_only True es)"
| "swap_only h (EvUnlock # es) = (h \<and> swap_only False es)"
| "swap_only h (e # es) = ((h \<longrightarrow> is_swap e) \<and> swap_only h es)"

definition disciplined :: "interleaving \<Rightarrow> bool" where
  "disciplined c \<longleftrightarrow>
     swap_only (holder c = Some Reloader) (reload_todo c)
     \<and> swap_only (holder c = Some Reader) (read_todo c)"

section \<open>Concrete inputs\<close>

text \<open>
  A file system with a certificate and a key that are rewritten once (the sixth and later
  events see the new modification time), a file that does not parse, and nothing else.
\<close>

definition world0 :: world where
  "world0 =
     \<lparr>stat_at = (\<lambda>n name.
        if name = ''cert.pem'' \<or> name = ''key.pem''
        then Inr \<lparr>ModTime = (if n < 5 then Time 100 0 else Time 200 500000000)\<rparr>
        else if name = ''bad.pem'' then Inr \<lparr>ModTime = Time 300 0\<rparr>
        else Inl (Error ''stat: no such file or directory'')),
      load_at = (\<lambda>n certFile keyFile.
        if certFile = ''cert.pem'' \<and> keyFile = ''key.pem''
        then Inr (Certificate [if n < 5 then ''chain 1'' else ''chain 2''] ''key'')
        else Inl (Error ''tls: failed to find any PEM data''))\<rparr>"

definition config0 :: TlsCertificateLoaderConfig where
  "config0 =
     \<lparr>CertificatePath = ''cert.pem'', KeyPath = ''key.pem'', CheckReloadPeriod = 10,
      OnReload = Some (Closure ''onReload''), OnError = Some (Closure ''onError'')\<rparr>"

definition runtime0 :: runtime where
  "runtime0 = \<lparr>heap = [], chans = [], trace = []\<rparr>"

text \<open>The loader and the runtime that \<open>NewTlsCertificateLoader world0 config0 runtime0\<close> returns.\<close>

definition loader1 :: TlsCertificateLoader where
  "loader1 =
     \<lparr>config = config0, closed = False, closeChan = Some 0, certificate = Some 0,
      certModTime = Time 100 0, keyModTime = Time 100 0\<rparr>"

definition runtime1 :: runtime where
  "runtime1 =
     \<lparr>heap = [Certificate [''chain 1''] ''key''],
      chans = [\<lparr>capacity = 1, buffered = 0\<rparr>],
      trace = [EvStat ''cert.pem'', EvStat ''key.pem'', EvLoadX509KeyPair ''cert.pem'' ''key.pem'',
               EvMakeChan 0, EvGoRun]\<rparr>"

text \<open>
  The loader after its paths were pointed elsewhere, as the tests do
  (\<^verbatim>\<open>loader.config.CertificatePath = test_certificate_file_missing\<close>): a missing
  certificate, a missing key, and a pair that does not parse.
\<close>

definition loader_missing_cert :: TlsCertificateLoader where
  "loader_missing_cert = loader1\<lparr>config := config0\<lparr>CertificatePath := ''missing.pem''\<rparr>\<rparr>"

definition loader_missing_key :: TlsCertificateLoader where
  "loader_missing_key = loader1\<lparr>config := config0\<lparr>KeyPath := ''missing.pem''\<rparr>\<rparr>"

definition loader_bad_pair :: TlsCertificateLoader where
  "loader_bad_pair = loader1\<lparr>config := config0\<lparr>CertificatePath := ''bad.pem'', KeyPath := ''bad.pem''\<rparr>\<rparr>"

text \<open>A configuration without a period and without callbacks, and the loader made from it.\<close>

definition config_once :: TlsCertificateLoaderConfig where
  "config_once =
     \<lparr>CertificatePath = ''cert.pem'', KeyPath = ''key.pem'', CheckReloadPeriod = 0,
      OnReload = None, OnError = None\<rparr>"

definition loader_once :: TlsCertificateLoader where
  "loader_once =
     \<lparr>config = config_once, closed = False, closeChan = None, certificate = Some 0,
      certModTime = Time 100 0, keyModTime = Time 100 0\<rparr>"

definition runtime_once :: runtime where
  "runtime_once =
     \<lparr>heap = [Certificate [''chain 1''] ''key''],
      chans = [],
      trace = [EvStat ''cert.pem'', EvStat ''key.pem'', EvLoadX509KeyPair ''cert.pem'' ''key.pem'']\<rparr>"

text \<open>
  The loader whose stored modification times differ from the ones on disk only below the
  millisecond, and the configuration whose certificate is missing.
\<close>

definition loader_same_ms :: TlsCertificateLoader where
  "loader_same_ms =
     loader1\<lparr>certModTime := Time 200 500999999, keyModTime := Time 200 500000001\<rparr>"

definition config_missing :: TlsCertificateLoaderConfig where
  "config_missing = config0\<lparr>CertificatePath := ''missing.pem''\<rparr>"

text \<open>
  The loader whose stored certificate time is one millisecond before the one on disk (the
  key's is the one on disk). And a file system whose files were touched to a time 2^61
  seconds after second 5 of the epoch, with the loader that last saw them at second 5.
\<close>

definition loader_prev_ms :: TlsCertificateLoader where
  "loader_prev_ms =
     loader1\<lparr>certModTime := Time 200 499000000, keyModTime := Time 200 500000000\<rparr>"

definition world_far :: world where
  "world_far =
     \<lparr>stat_at = (\<lambda>n name. Inr \<lparr>ModTime = Time 2305843009213693957 0\<rparr>),
      load_at = (\<lambda>n certFile keyFile. Inr (Certificate [''chain 3''] ''key''))\<rparr>"

definition loader_far :: TlsCertificateLoader where
  "loader_far = loader1\<lparr>certModTime := Time 5 0, keyModTime := Time 5 0\<rparr>"

section \<open>What one check cycle does\<close>

lemmas prims =
  emit_def os_Stat_def tls_LoadX509KeyPair_def address_of_def make_chan_def chan_send_def
  mu_Lock_def mu_Unlock_def go_run_def call0_def call1_def store_certModTime_def
  store_keyModTime_def store_certificate_def store_closed_def

lemmas inputs =
  world0_def config0_def runtime0_def loader1_def runtime1_def loader_missing_cert_def
  loader_missing_key_def loader_bad_pair_def config_once_def loader_once_def runtime_once_def
  loader_same_ms_def config_missing_def loader_prev_ms_def world_far_def loader_far_def

text \<open>The five ways through \<open>check\<close>, each with the loader and the runtime it returns.\<close>

lemma check_stat_cert_fails:
  assumes "cert_stat w (config l) rt = Inl err"
  shows "check w l rt =
    Inr (l, rt\<lparr>trace := trace rt @ EvStat (CertificatePath (config l)) # error_calls (config l) err\<rparr>)"
  using assms
  by (simp add: check_def report_error_def prims cert_stat_def error_calls_def split: option.splits)

lemma check_stat_key_fails:
  assumes "cert_stat w (config l) rt = Inr sc" and "key_stat w (config l) rt = Inl err"
  shows "check w l rt =
    Inr (l, rt\<lparr>trace := trace rt @ EvStat (CertificatePath (config l))
                 # EvStat (KeyPath (config l)) # error_calls (config l) err\<rparr>)"
  using assms
  by (simp add: check_def report_error_def prims cert_stat_def key_stat_def error_calls_def
      split: option.splits)

lemma check_unchanged:
  assumes "cert_stat w (config l) rt = Inr sc" and "key_stat w (config l) rt = Inr sk"
    and "UnixMilli (ModTime sk) = UnixMilli (keyModTime l)
         \<and> UnixMilli (ModTime sc) = UnixMilli (certModTime l)"
  shows "check w l rt =
    Inr (l, rt\<lparr>trace := trace rt @ [EvStat (CertificatePath (config l)), EvStat (KeyPath (config l))]\<rparr>)"
  using assms
  by (simp add: check_def prims cert_stat_def key_stat_def)

lemma check_load_fails:
  assumes "cert_stat w (config l) rt = Inr sc" and "key_stat w (config l) rt = Inr sk"
    and "\<not> (UnixMilli (ModTime sk) = UnixMilli (keyModTime l)
            \<and> UnixMilli (ModTime sc) = UnixMilli (certModTime l))"
    and "pair_load w (config l) rt = Inl err"
  shows "check w l rt =
    Inr (l, rt\<lparr>trace := trace rt @ EvStat (CertificatePath (config l))
                 # EvStat (KeyPath (config l))
                 # EvLoadX509KeyPair (CertificatePath (config l)) (KeyPath (config l))
                 # error_calls (config l) err\<rparr>)"
  using assms
  by (auto simp add: check_def report_error_def prims cert_stat_def key_stat_def pair_load_def
      error_calls_def split: option.splits)

lemma check_reloaded:
  assumes "cert_stat w (config l) rt = Inr sc" and "key_stat w (config l) rt = Inr sk"
    and "\<not> (UnixMilli (ModTime sk) = UnixMilli (keyModTime l)
            \<and> UnixMilli (ModTime sc) = UnixMilli (certModTime l))"
    and "pair_load w (config l) rt = Inr c"
  shows "check w l rt =
    Inr (l\<lparr>certModTime := ModTime sc, keyModTime := ModTime sk,
           certificate := Some (length (heap rt))\<rparr>,
         rt\<lparr>heap := heap rt @ [c],
            trace := trace rt @
              [EvStat (CertificatePath (config l)), EvStat (KeyPath (config l)),
               EvLoadX509KeyPair (CertificatePath (config l)) (KeyPath (config l)),
               EvStoreCertModTime (ModTime sc), EvStoreKeyModTime (ModTime sk),
               EvLock, EvStoreCertificate (Some (length (heap rt))), EvUnlock]
              @ reload_calls (config l)\<rparr>)"
  using assms
  by (auto simp add: check_def prims cert_stat_def key_stat_def pair_load_def reload_calls_def
      Let_def split: option.splits)

lemma new_events_append [simp]: "new_events rt (rt\<lparr>trace := trace rt @ es\<rparr>) = es"
  by (simp add: new_events_def)

lemma new_events_append_heap [simp]:
  "new_events rt (rt\<lparr>heap := h, trace := trace rt @ es\<rparr>) = es"
  by (simp add: new_events_def)

lemma filter_call_error_calls [simp]: "filter is_call (error_calls cfg err) = error_calls cfg err"
  by (simp add: error_calls_def split: option.splits)

lemma filter_store_error_calls [simp]: "filter is_store (error_calls cfg err) = []"
  by (simp add: error_calls_def split: option.splits)

text \<open>
  C1. A check cycle fails when the stat of the certificate file returns an error, or that
  stat succeeds and the stat of the key file returns an error, or both succeed, a change is
  seen and the load returns an error. Every such cycle returns the loader it was given
  (so the certificate pointer and both stored modification times are as before), leaves
  the allocated certificates alone, stores to no field, and calls \<open>OnError\<close> with the error
  when it is configured and nothing else: in particular it does not call \<open>OnReload\<close>.
\<close>

theorem check_failure_retains_state:
  assumes "cert_stat w (config l) rt = Inl err
         \<or> cert_stat w (config l) rt = Inr sc \<and> key_stat w (config l) rt = Inl err
         \<or> cert_stat w (config l) rt = Inr sc \<and> key_stat w (config l) rt = Inr sk
            \<and> \<not> (UnixMilli (ModTime sk) = UnixMilli (keyModTime l)
                   \<and> UnixMilli (ModTime sc) = UnixMilli (certModTime l))
            \<and> pair_load w (config l) rt = Inl err"
  shows "\<exists>rt'. check w l rt = Inr (l, rt')
           \<and> heap rt' = heap rt \<and> chans rt' = chans rt
           \<and> filter is_store (new_events rt rt') = []
           \<and> filter is_call (new_events rt rt')
               = (case OnError (config l) of None \<Rightarrow> [] | Some f \<Rightarrow> [EvCall1 f err])"
proof -
  consider (a) "cert_stat w (config l) rt = Inl err"
    | (b) "cert_stat w (config l) rt = Inr sc" "key_stat w (config l) rt = Inl err"
    | (c) "cert_stat w (config l) rt = Inr sc" "key_stat w (config l) rt = Inr sk"
          "\<not> (UnixMilli (ModTime sk) = UnixMilli (keyModTime l)
              \<and> UnixMilli (ModTime sc) = UnixMilli (certModTime l))"
          "pair_load w (config l) rt = Inl err"
    using assms by blast
  then show ?thesis
  proof cases
    case a
    show ?thesis
      unfolding check_stat_cert_fails [OF a]
      by (simp add: error_calls_def [symmetric])
  next
    case b
    show ?thesis
      unfolding check_stat_key_fails [OF b]
      by (simp add: error_calls_def [symmetric])
  next
    case c
    show ?thesis
      unfolding check_load_fails [OF c]
      by (simp add: error_calls_def [symmetric])
  qed
qed

theorem check_failure_retains_state_witness:
  "(\<exists>rt'. check world0 loader_missing_cert runtime1 = Inr (loader_missing_cert, rt')
      \<and> heap rt' = heap runtime1 \<and> chans rt' = chans runtime1
      \<and> filter is_store (new_events runtime1 rt') = []
      \<and> filter is_call (new_events runtime1 rt')
          = [EvCall1 (Closure ''onError'') (Error ''stat: no such file or directory'')])
   \<and> (\<exists>rt'. check world0 loader_missing_key runtime1 = Inr (loader_missing_key, rt')
      \<and> heap rt' = heap runtime1 \<and> chans rt' = chans runtime1
      \<and> filter is_store (new_events runtime1 rt') = []
      \<and> filter is_call (new_events runtime1 rt')
          = [EvCall1 (Closure ''onError'') (Error ''stat: no such file or directory'')])
   \<and> (\<exists>rt'. check world0 loader_bad_pair runtime1 = Inr (loader_bad_pair, rt')
      \<and> heap rt' = heap runtime1 \<and> chans rt' = chans runtime1
      \<and> filter is_store (new_events runtime1 rt') = []
      \<and> filter is_call (new_events runtime1 rt')
          = [EvCall1 (Closure ''onError'') (Error ''tls: failed to find any PEM data'')])"
proof -
  have a: "cert_stat world0 (config loader_missing_cert) runtime1
             = Inl (Error ''stat: no such file or directory'')"
    by (simp add: cert_stat_def inputs)
  have b: "cert_stat world0 (config loader_missing_key) runtime1
             = Inr \<lparr>ModTime = Time 200 500000000\<rparr>
         \<and> key_stat world0 (config loader_missing_key) runtime1
             = Inl (Error ''stat: no such file or directory'')"
    by (simp add: cert_stat_def key_stat_def inputs)
  have c: "cert_stat world0 (config loader_bad_pair) runtime1 = Inr \<lparr>ModTime = Time 300 0\<rparr>
         \<and> key_stat world0 (config loader_bad_pair) runtime1 = Inr \<lparr>ModTime = Time 300 0\<rparr>
         \<and> \<not> (UnixMilli (ModTime \<lparr>ModTime = Time 300 0\<rparr>) = UnixMilli (keyModTime loader_bad_pair)
               \<and> UnixMilli (ModTime \<lparr>ModTime = Time 300 0\<rparr>) = UnixMilli (certModTime loader_bad_pair))
         \<and> pair_load world0 (config loader_bad_pair) runtime1
             = Inl (Error ''tls: failed to find any PEM data'')"
    by (simp add: cert_stat_def key_stat_def pair_load_def UnixMilli_def inputs)
  have ea: "OnError (config loader_missing_cert) = Some (Closure ''onError'')"
    and eb: "OnError (config loader_missing_key) = Some (Closure ''onError'')"
    and ec: "OnError (config loader_bad_pair) = Some (Closure ''onError'')"
    by (simp_all add: inputs)
  show ?thesis
    using
      check_failure_retains_state [of world0 loader_missing_cert runtime1
        "Error ''stat: no such file or directory''" "\<lparr>ModTime = Time 0 0\<rparr>" "\<lparr>ModTime = Time 0 0\<rparr>"]
      check_failure_retains_state [of world0 loader_missing_key runtime1
        "Error ''stat: no such file or directory''" "\<lparr>ModTime = Time 200 500000000\<rparr>"
        "\<lparr>ModTime = Time 0 0\<rparr>"]
      check_failure_retains_state [of world0 loader_bad_pair runtime1
        "Error ''tls: failed to find any PEM data''" "\<lparr>ModTime = Time 300 0\<rparr>"
        "\<lparr>ModTime = Time 300 0\<rparr>"]
      a b c
    by (simp only: ea eb ec option.case simp_thms)
qed

text \<open>
  C2. A check cycle in which both stats succeed, a change is seen and the load succeeds
  returns the loader with both stored modification times set to the ones its two stats
  returned (the first two events of the cycle, before the load) and with the certificate
  pointer set to a fresh address that holds the loaded pair. Its events are, in this
  order: the two stats, the load, the store of \<open>certModTime\<close>, the store of \<open>keyModTime\<close>,
  the store of \<open>certificate\<close> between \<open>Lock\<close> and \<open>Unlock\<close>, and then one call of
  \<open>OnReload\<close> when it is configured.
\<close>

theorem check_success_order:
  assumes "cert_stat w (config l) rt = Inr sc"
    and "key_stat w (config l) rt = Inr sk"
    and "\<not> (UnixMilli (ModTime sk) = UnixMilli (keyModTime l)
            \<and> UnixMilli (ModTime sc) = UnixMilli (certModTime l))"
    and "pair_load w (config l) rt = Inr c"
  shows "\<exists>rt'. check w l rt =
             Inr (l\<lparr>certModTime := ModTime sc, keyModTime := ModTime sk,
                    certificate := Some (length (heap rt))\<rparr>, rt')
           \<and> heap rt' = heap rt @ [c] \<and> heap rt' ! length (heap rt) = c
           \<and> chans rt' = chans rt
           \<and> new_events rt rt' =
               [EvStat (CertificatePath (config l)), EvStat (KeyPath (config l)),
                EvLoadX509KeyPair (CertificatePath (config l)) (KeyPath (config l)),
                EvStoreCertModTime (ModTime sc), EvStoreKeyModTime (ModTime sk),
                EvLock, EvStoreCertificate (Some (length (heap rt))), EvUnlock]
               @ (case OnReload (config l) of None \<Rightarrow> [] | Some f \<Rightarrow> [EvCall0 f])"
  unfolding check_reloaded [OF assms]
  by (simp add: reload_calls_def)

theorem check_success_order_witness:
  "\<exists>rt'. check world0 loader1 runtime1 =
             Inr (loader1\<lparr>certModTime := Time 200 500000000, keyModTime := Time 200 500000000,
                    certificate := Some 1\<rparr>, rt')
           \<and> heap rt' = [Certificate [''chain 1''] ''key'', Certificate [''chain 2''] ''key'']
           \<and> heap rt' ! 1 = Certificate [''chain 2''] ''key''
           \<and> chans rt' = chans runtime1
           \<and> new_events runtime1 rt' =
               [EvStat ''cert.pem'', EvStat ''key.pem'', EvLoadX509KeyPair ''cert.pem'' ''key.pem'',
                EvStoreCertModTime (Time 200 500000000), EvStoreKeyModTime (Time 200 500000000),
                EvLock, EvStoreCertificate (Some 1), EvUnlock, EvCall0 (Closure ''onReload'')]"
proof -
  have a: "cert_stat world0 (config loader1) runtime1 = Inr \<lparr>ModTime = Time 200 500000000\<rparr>"
    and b: "key_stat world0 (config loader1) runtime1 = Inr \<lparr>ModTime = Time 200 500000000\<rparr>"
    and d: "pair_load world0 (config loader1) runtime1 = Inr (Certificate [''chain 2''] ''key'')"
    by (simp_all add: cert_stat_def key_stat_def pair_load_def inputs)
  have c: "\<not> (UnixMilli (ModTime \<lparr>ModTime = Time 200 500000000\<rparr>) = UnixMilli (keyModTime loader1)
            \<and> UnixMilli (ModTime \<lparr>ModTime = Time 200 500000000\<rparr>) = UnixMilli (certModTime loader1))"
    by (simp add: UnixMilli_def inputs)
  show ?thesis
    using check_success_order [OF a b c d]
    by (simp add: inputs)
qed

text \<open>
  Whatever the file system answers, \<open>check\<close> returns: it neither panics nor blocks.
\<close>

lemma check_total: "\<exists>l' rt'. check w l rt = Inr (l', rt')"
proof (cases "cert_stat w (config l) rt")
  case (Inl err)
  then show ?thesis by (simp add: check_stat_cert_fails)
next
  case sc: (Inr sc)
  show ?thesis
  proof (cases "key_stat w (config l) rt")
    case (Inl err)
    with sc show ?thesis by (simp add: check_stat_key_fails)
  next
    case sk: (Inr sk)
    show ?thesis
    proof (cases "UnixMilli (ModTime sk) = UnixMilli (keyModTime l)
              \<and> UnixMilli (ModTime sc) = UnixMilli (certModTime l)")
      case True
      with sc sk show ?thesis by (simp add: check_unchanged)
    next
      case False
      show ?thesis
      proof (cases "pair_load w (config l) rt")
        case (Inl err)
        with sc sk False show ?thesis using check_load_fails [of w l rt sc sk err] by simp
      next
        case (Inr c)
        with sc sk False show ?thesis using check_reloaded [of w l rt sc sk c] by simp
      qed
    qed
  qed
qed

text \<open>
  The guards are what keeps it so: a call through a \<open>nil\<close> function value is a panic.
\<close>

lemma nil_call_panics:
  "call0 None rt = Inl CallOfNilFunc" and "call1 None err rt = Inl CallOfNilFunc"
  by (simp_all add: call0_def call1_def)

lemma load_notin_error_calls [simp]: "EvLoadX509KeyPair a b \<notin> set (error_calls cfg err)"
  by (simp add: error_calls_def split: option.splits)

lemma load_notin_reload_calls [simp]: "EvLoadX509KeyPair a b \<notin> set (reload_calls cfg)"
  by (simp add: reload_calls_def split: option.splits)

text \<open>
  What \<open>check\<close> decides with, in the words of its own comparison: when both stats
  succeed, the load is called if and only if \<open>UnixMilli\<close> of the key's or of the
  certificate's modification time differs from \<open>UnixMilli\<close> of the stored one.
\<close>

lemma check_reload_iff_UnixMilli:
  assumes "cert_stat w (config l) rt = Inr sc"
    and "key_stat w (config l) rt = Inr sk"
  shows "\<exists>l' rt'. check w l rt = Inr (l', rt')
           \<and> (EvLoadX509KeyPair (CertificatePath (config l)) (KeyPath (config l))
                 \<in> set (new_events rt rt')
               \<longleftrightarrow> UnixMilli (ModTime sk) \<noteq> UnixMilli (keyModTime l)
                   \<or> UnixMilli (ModTime sc) \<noteq> UnixMilli (certModTime l))
           \<and> (UnixMilli (ModTime sk) = UnixMilli (keyModTime l)
               \<and> UnixMilli (ModTime sc) = UnixMilli (certModTime l)
               \<longrightarrow> l' = l \<and> certificate l' = certificate l
                   \<and> heap rt' = heap rt \<and> chans rt' = chans rt
                   \<and> filter is_call (new_events rt rt') = []
                   \<and> filter is_store (new_events rt rt') = []
                   \<and> new_events rt rt'
                       = [EvStat (CertificatePath (config l)), EvStat (KeyPath (config l))])"
proof (cases "UnixMilli (ModTime sk) = UnixMilli (keyModTime l)
              \<and> UnixMilli (ModTime sc) = UnixMilli (certModTime l)")
  case True
  show ?thesis
    unfolding check_unchanged [OF assms True]
    using True by simp
next
  case False
  show ?thesis
  proof (cases "pair_load w (config l) rt")
    case (Inl err)
    show ?thesis
      unfolding check_load_fails [OF assms False Inl]
      using False by (auto simp: error_calls_def split: option.splits)
  next
    case (Inr c)
    show ?thesis
      unfolding check_reloaded [OF assms False Inr]
      using False by (auto simp: reload_calls_def split: option.splits)
  qed
qed

text \<open>
  \<open>UnixMilli\<close> is the truncation to milliseconds taken modulo 2^64, and the truncation
  itself for every time that fits.
\<close>

lemma truncate_ms_eq: "truncate_ms t = sint (unixSec t) * 1000 + int (nsec t div 1000000)"
proof -
  have "unix_nanos t = int (nsec t) + (sint (unixSec t) * 1000) * 1000000"
    by (simp add: unix_nanos_def)
  then have "truncate_ms t = int (nsec t) div 1000000 + sint (unixSec t) * 1000"
    unfolding truncate_ms_def by (simp only: div_mult_self1)
  then show ?thesis
    by (simp add: zdiv_int)
qed

lemma UnixMilli_of_truncate_ms: "UnixMilli t = word_of_int (truncate_ms t)"
  by (simp add: UnixMilli_def truncate_ms_eq)

lemma sint_UnixMilli:
  assumes "fits_int64 t"
  shows "sint (UnixMilli t) = truncate_ms t"
proof -
  have "sint (UnixMilli t) = signed_take_bit 63 (truncate_ms t)"
    by (simp add: UnixMilli_of_truncate_ms sint_sbintrunc')
  also have "\<dots> = truncate_ms t"
    using assms by (simp add: fits_int64_def signed_take_bit_int_eq_self)
  finally show ?thesis .
qed

lemma UnixMilli_eq_iff:
  assumes "fits_int64 a" and "fits_int64 b"
  shows "UnixMilli a = UnixMilli b \<longleftrightarrow> truncate_ms a = truncate_ms b"
proof
  assume "UnixMilli a = UnixMilli b"
  then have "sint (UnixMilli a) = sint (UnixMilli b)" by simp
  with assms show "truncate_ms a = truncate_ms b" by (simp add: sint_UnixMilli)
next
  assume "truncate_ms a = truncate_ms b"
  then show "UnixMilli a = UnixMilli b" by (simp add: UnixMilli_of_truncate_ms)
qed

text \<open>
  C3, as amended. When both stats of a check cycle succeed, the cycle calls
  \<open>tls.LoadX509KeyPair\<close> if and only if the int64 millisecond value (\<open>UnixMilli\<close>) of the
  key's or of the certificate's modification time differs from that of the stored one.
  When the two observed and the two stored times fit, that is: if and only if the key's or
  the certificate's modification time, truncated to milliseconds, differs from the stored
  one truncated to milliseconds. When both int64 millisecond values are equal the cycle
  returns the loader it was given (the same certificate pointer), allocates nothing, and
  its only events are the two stats: no store and no call of either callback.

  Without the condition that the times fit the equivalence with the truncated times does
  not hold: the int64 millisecond value wraps, so two times 2^61 seconds apart have the
  same one (shown after the theorem).
\<close>

theorem check_reload_iff_ms_changed:
  assumes "cert_stat w (config l) rt = Inr sc"
    and "key_stat w (config l) rt = Inr sk"
  shows "\<exists>l' rt'. check w l rt = Inr (l', rt')
           \<and> (EvLoadX509KeyPair (CertificatePath (config l)) (KeyPath (config l))
                 \<in> set (new_events rt rt')
               \<longleftrightarrow> UnixMilli (ModTime sk) \<noteq> UnixMilli (keyModTime l)
                   \<or> UnixMilli (ModTime sc) \<noteq> UnixMilli (certModTime l))
           \<and> (fits_int64 (ModTime sk) \<and> fits_int64 (keyModTime l)
               \<and> fits_int64 (ModTime sc) \<and> fits_int64 (certModTime l)
               \<longrightarrow> (EvLoadX509KeyPair (CertificatePath (config l)) (KeyPath (config l))
                        \<in> set (new_events rt rt')
                      \<longleftrightarrow> truncate_ms (ModTime sk) \<noteq> truncate_ms (keyModTime l)
                          \<or> truncate_ms (ModTime sc) \<noteq> truncate_ms (certModTime l)))
           \<and> (UnixMilli (ModTime sk) = UnixMilli (keyModTime l)
               \<and> UnixMilli (ModTime sc) = UnixMilli (certModTime l)
               \<longrightarrow> l' = l \<and> certificate l' = certificate l
                   \<and> heap rt' = heap rt \<and> chans rt' = chans rt
                   \<and> filter is_call (new_events rt rt') = []
                   \<and> filter is_store (new_events rt rt') = []
                   \<and> new_events rt rt'
                       = [EvStat (CertificatePath (config l)), EvStat (KeyPath (config l))])"
proof -
  from check_reload_iff_UnixMilli [OF assms]
  obtain l' rt' where r: "check w l rt = Inr (l', rt')"
    and i: "EvLoadX509KeyPair (CertificatePath (config l)) (KeyPath (config l))
                 \<in> set (new_events rt rt')
               \<longleftrightarrow> UnixMilli (ModTime sk) \<noteq> UnixMilli (keyModTime l)
                   \<or> UnixMilli (ModTime sc) \<noteq> UnixMilli (certModTime l)"
    and u: "UnixMilli (ModTime sk) = UnixMilli (keyModTime l)
               \<and> UnixMilli (ModTime sc) = UnixMilli (certModTime l)
               \<longrightarrow> l' = l \<and> certificate l' = certificate l
                   \<and> heap rt' = heap rt \<and> chans rt' = chans rt
                   \<and> filter is_call (new_events rt rt') = []
                   \<and> filter is_store (new_events rt rt') = []
                   \<and> new_events rt rt'
                       = [EvStat (CertificatePath (config l)), EvStat (KeyPath (config l))]"
    by blast
  have t: "fits_int64 (ModTime sk) \<and> fits_int64 (keyModTime l)
               \<and> fits_int64 (ModTime sc) \<and> fits_int64 (certModTime l)
               \<longrightarrow> (EvLoadX509KeyPair (CertificatePath (config l)) (KeyPath (config l))
                        \<in> set (new_events rt rt')
                      \<longleftrightarrow> truncate_ms (ModTime sk) \<noteq> truncate_ms (keyModTime l)
                          \<or> truncate_ms (ModTime sc) \<noteq> truncate_ms (certModTime l))"
    using i by (simp add: UnixMilli_eq_iff)
  from r i t u show ?thesis by blast
qed

theorem check_reload_iff_ms_changed_witness:
  "fits_int64 (Time 200 500000000) \<and> fits_int64 (Time 200 499000000)
   \<and> fits_int64 (Time 200 500999999) \<and> fits_int64 (Time 200 500000001)
   \<and> truncate_ms (Time 200 500000000) = 200500
   \<and> truncate_ms (Time 200 499000000) = 200499
   \<and> truncate_ms (Time 200 500999999) = 200500
   \<and> truncate_ms (Time 200 500000001) = 200500
   \<and> (\<exists>l' rt'. check world0 loader_prev_ms runtime1 = Inr (l', rt')
      \<and> EvLoadX509KeyPair ''cert.pem'' ''key.pem'' \<in> set (new_events runtime1 rt'))
   \<and> (\<exists>l' rt'. check world0 loader_same_ms runtime1 = Inr (l', rt')
      \<and> EvLoadX509KeyPair ''cert.pem'' ''key.pem'' \<notin> set (new_events runtime1 rt')
      \<and> l' = loader_same_ms
      \<and> new_events runtime1 rt' = [EvStat ''cert.pem'', EvStat ''key.pem''])"
proof -
  have a: "cert_stat world0 (config loader_prev_ms) runtime1 = Inr \<lparr>ModTime = Time 200 500000000\<rparr>"
    and b: "key_stat world0 (config loader_prev_ms) runtime1 = Inr \<lparr>ModTime = Time 200 500000000\<rparr>"
    by (simp_all add: cert_stat_def key_stat_def inputs)
  have a': "cert_stat world0 (config loader_same_ms) runtime1 = Inr \<lparr>ModTime = Time 200 500000000\<rparr>"
    and b': "key_stat world0 (config loader_same_ms) runtime1 = Inr \<lparr>ModTime = Time 200 500000000\<rparr>"
    by (simp_all add: cert_stat_def key_stat_def inputs)
  have f: "fits_int64 (Time 200 500000000)" "fits_int64 (Time 200 499000000)"
    "fits_int64 (Time 200 500999999)" "fits_int64 (Time 200 500000001)"
    by (simp_all add: fits_int64_def truncate_ms_def unix_nanos_def)
  have m: "truncate_ms (Time 200 500000000) = 200500" "truncate_ms (Time 200 499000000) = 200499"
    "truncate_ms (Time 200 500999999) = 200500" "truncate_ms (Time 200 500000001) = 200500"
    by (simp_all add: truncate_ms_def unix_nanos_def)
  have s: "ModTime \<lparr>ModTime = Time 200 500000000\<rparr> = Time 200 500000000"
    "certModTime loader_prev_ms = Time 200 499000000"
    "keyModTime loader_prev_ms = Time 200 500000000"
    "certModTime loader_same_ms = Time 200 500999999"
    "keyModTime loader_same_ms = Time 200 500000001"
    by (simp_all add: inputs)
  have p: "CertificatePath (config loader_prev_ms) = ''cert.pem''"
    "KeyPath (config loader_prev_ms) = ''key.pem''"
    "CertificatePath (config loader_same_ms) = ''cert.pem''"
    "KeyPath (config loader_same_ms) = ''key.pem''"
    by (simp_all add: inputs)
  from check_reload_iff_ms_changed [OF a b]
  have 1: "\<exists>l' rt'. check world0 loader_prev_ms runtime1 = Inr (l', rt')
      \<and> EvLoadX509KeyPair ''cert.pem'' ''key.pem'' \<in> set (new_events runtime1 rt')"
    unfolding p s using f m by auto
  have e: "UnixMilli (Time 200 500000000) = UnixMilli (Time 200 500000001)"
    "UnixMilli (Time 200 500000000) = UnixMilli (Time 200 500999999)"
    using f m by (simp_all add: UnixMilli_eq_iff)
  from check_reload_iff_ms_changed [OF a' b']
  have 2: "\<exists>l' rt'. check world0 loader_same_ms runtime1 = Inr (l', rt')
      \<and> EvLoadX509KeyPair ''cert.pem'' ''key.pem'' \<notin> set (new_events runtime1 rt')
      \<and> l' = loader_same_ms
      \<and> new_events runtime1 rt' = [EvStat ''cert.pem'', EvStat ''key.pem'']"
    unfolding p s using e by auto
  from f m 1 2 show ?thesis by simp
qed

text \<open>
  The files were touched to a time 2^61 seconds later than the stored one. Truncated to
  milliseconds the two times differ, their int64 millisecond values are the same, and the
  cycle does not call the load.
\<close>

theorem check_reload_iff_changed_counterexample:
  "cert_stat world_far (config loader_far) runtime1 = Inr \<lparr>ModTime = Time 2305843009213693957 0\<rparr>
   \<and> key_stat world_far (config loader_far) runtime1 = Inr \<lparr>ModTime = Time 2305843009213693957 0\<rparr>
   \<and> certModTime loader_far = Time 5 0 \<and> keyModTime loader_far = Time 5 0
   \<and> truncate_ms (Time 2305843009213693957 0) = 2305843009213693957000
   \<and> truncate_ms (Time 5 0) = 5000
   \<and> truncate_ms (Time 2305843009213693957 0) \<noteq> truncate_ms (Time 5 0)
   \<and> check world_far loader_far runtime1
       = Inr (loader_far,
              runtime1\<lparr>trace := trace runtime1 @ [EvStat ''cert.pem'', EvStat ''key.pem'']\<rparr>)
   \<and> EvLoadX509KeyPair ''cert.pem'' ''key.pem''
       \<notin> set (new_events runtime1
                 (runtime1\<lparr>trace := trace runtime1 @ [EvStat ''cert.pem'', EvStat ''key.pem'']\<rparr>))"
proof -
  have a: "cert_stat world_far (config loader_far) runtime1
             = Inr \<lparr>ModTime = Time 2305843009213693957 0\<rparr>"
    and b: "key_stat world_far (config loader_far) runtime1
             = Inr \<lparr>ModTime = Time 2305843009213693957 0\<rparr>"
    by (simp_all add: cert_stat_def key_stat_def inputs)
  have c: "UnixMilli (ModTime \<lparr>ModTime = Time 2305843009213693957 0\<rparr>) = UnixMilli (keyModTime loader_far)
         \<and> UnixMilli (ModTime \<lparr>ModTime = Time 2305843009213693957 0\<rparr>) = UnixMilli (certModTime loader_far)"
    by (simp add: UnixMilli_def inputs)
  have m: "truncate_ms (Time 2305843009213693957 0) = 2305843009213693957000"
    "truncate_ms (Time 5 0) = 5000"
    by (simp_all add: truncate_ms_def unix_nanos_def)
  have p: "CertificatePath (config loader_far) = ''cert.pem''"
    "KeyPath (config loader_far) = ''key.pem''"
    "certModTime loader_far = Time 5 0" "keyModTime loader_far = Time 5 0"
    by (simp_all add: inputs)
  from check_unchanged [OF a b c]
  have "check world_far loader_far runtime1
       = Inr (loader_far,
              runtime1\<lparr>trace := trace runtime1 @ [EvStat ''cert.pem'', EvStat ''key.pem'']\<rparr>)"
    unfolding p .
  with a b m p show ?thesis by simp
qed

lemma stats_without_callbacks [simp]:
  "cert_stat w (config (without_callbacks l)) rt = cert_stat w (config l) rt"
  "key_stat w (config (without_callbacks l)) rt = key_stat w (config l) rt"
  "pair_load w (config (without_callbacks l)) rt = pair_load w (config l) rt"
  by (simp_all add: without_callbacks_def cert_stat_def key_stat_def pair_load_def)

lemma fields_without_callbacks [simp]:
  "CertificatePath (config (without_callbacks l)) = CertificatePath (config l)"
  "KeyPath (config (without_callbacks l)) = KeyPath (config l)"
  "certModTime (without_callbacks l) = certModTime l"
  "keyModTime (without_callbacks l) = keyModTime l"
  "error_calls (config (without_callbacks l)) err = []"
  "reload_calls (config (without_callbacks l)) = []"
  by (simp_all add: without_callbacks_def error_calls_def reload_calls_def)

lemma not_call_error_calls [simp]: "filter (\<lambda>e. \<not> is_call e) (error_calls cfg err) = []"
  by (simp add: error_calls_def split: option.splits)

lemma not_call_reload_calls [simp]: "filter (\<lambda>e. \<not> is_call e) (reload_calls cfg) = []"
  by (simp add: reload_calls_def split: option.splits)

lemma call0_notin_error_calls [simp]: "EvCall0 f \<notin> set (error_calls cfg err)"
  by (simp add: error_calls_def split: option.splits)

lemma call1_notin_reload_calls [simp]: "EvCall1 f err \<notin> set (reload_calls cfg)"
  by (simp add: reload_calls_def split: option.splits)

lemma error_calls_nil: "OnError cfg = None \<Longrightarrow> error_calls cfg err = []"
  by (simp add: error_calls_def)

lemma reload_calls_nil: "OnReload cfg = None \<Longrightarrow> reload_calls cfg = []"
  by (simp add: reload_calls_def)

text \<open>
  C8. Every check cycle returns, whatever the file system answers and whichever callbacks
  are configured. With \<open>OnError\<close> \<open>nil\<close> the cycle makes no call of a function taking an
  error, with \<open>OnReload\<close> \<open>nil\<close> no call of a function without arguments; and the cycle
  of the loader without callbacks returns the same loader and runtime as the cycle of the
  loader with them, less the call events: the notification is skipped and nothing else
  changes.
\<close>

theorem check_tolerates_nil_callbacks:
  "\<exists>l' rt'. check w l rt = Inr (l', rt')
     \<and> (OnError (config l) = None \<longrightarrow> (\<forall>f err. EvCall1 f err \<notin> set (new_events rt rt')))
     \<and> (OnReload (config l) = None \<longrightarrow> (\<forall>f. EvCall0 f \<notin> set (new_events rt rt')))
     \<and> check w (without_callbacks l) rt
         = Inr (without_callbacks l',
                rt'\<lparr>trace := trace rt @ filter (\<lambda>e. \<not> is_call e) (new_events rt rt')\<rparr>)"
proof (cases "cert_stat w (config l) rt")
  case (Inl err)
  then have "cert_stat w (config (without_callbacks l)) rt = Inl err" by simp
  note n = check_stat_cert_fails [OF this]
  show ?thesis
    unfolding check_stat_cert_fails [OF Inl] n
    by (simp add: error_calls_nil)
next
  case sc: (Inr sc)
  then have sc': "cert_stat w (config (without_callbacks l)) rt = Inr sc" by simp
  show ?thesis
  proof (cases "key_stat w (config l) rt")
    case (Inl err)
    then have "key_stat w (config (without_callbacks l)) rt = Inl err" by simp
    note n = check_stat_key_fails [OF sc' this]
    show ?thesis
      unfolding check_stat_key_fails [OF sc Inl] n
      by (simp add: error_calls_nil)
  next
    case sk: (Inr sk)
    then have sk': "key_stat w (config (without_callbacks l)) rt = Inr sk" by simp
    show ?thesis
    proof (cases "UnixMilli (ModTime sk) = UnixMilli (keyModTime l)
                  \<and> UnixMilli (ModTime sc) = UnixMilli (certModTime l)")
      case True
      then have "UnixMilli (ModTime sk) = UnixMilli (keyModTime (without_callbacks l))
                  \<and> UnixMilli (ModTime sc) = UnixMilli (certModTime (without_callbacks l))"
        by simp
      note n = check_unchanged [OF sc' sk' this]
      show ?thesis
        unfolding check_unchanged [OF sc sk True] n
        by simp
    next
      case False
      then have ch': "\<not> (UnixMilli (ModTime sk) = UnixMilli (keyModTime (without_callbacks l))
                  \<and> UnixMilli (ModTime sc) = UnixMilli (certModTime (without_callbacks l)))"
        by simp
      show ?thesis
      proof (cases "pair_load w (config l) rt")
        case (Inl err)
        then have "pair_load w (config (without_callbacks l)) rt = Inl err" by simp
        note n = check_load_fails [OF sc' sk' ch' this]
        show ?thesis
          unfolding check_load_fails [OF sc sk False Inl] n
          by (simp add: error_calls_nil)
      next
        case (Inr c)
        then have "pair_load w (config (without_callbacks l)) rt = Inr c" by simp
        note n = check_reloaded [OF sc' sk' ch' this]
        show ?thesis
          unfolding check_reloaded [OF sc sk False Inr] n
          by (simp add: reload_calls_nil without_callbacks_def)
      qed
    qed
  qed
qed

theorem check_tolerates_nil_callbacks_witness:
  "OnError (config (without_callbacks loader_missing_cert)) = None
   \<and> OnReload (config (without_callbacks loader1)) = None
   \<and> (\<exists>l' rt'. check world0 (without_callbacks loader_missing_cert) runtime1 = Inr (l', rt')
         \<and> (\<forall>f err. EvCall1 f err \<notin> set (new_events runtime1 rt')))
   \<and> (\<exists>l' rt'. check world0 (without_callbacks loader1) runtime1 = Inr (l', rt')
         \<and> (\<forall>f. EvCall0 f \<notin> set (new_events runtime1 rt')))"
proof -
  have a: "OnError (config (without_callbacks loader_missing_cert)) = None"
    and b: "OnReload (config (without_callbacks loader1)) = None"
    by (simp_all add: without_callbacks_def)
  from check_tolerates_nil_callbacks [of world0 "without_callbacks loader_missing_cert" runtime1] a
  have 1: "\<exists>l' rt'. check world0 (without_callbacks loader_missing_cert) runtime1 = Inr (l', rt')
         \<and> (\<forall>f err. EvCall1 f err \<notin> set (new_events runtime1 rt'))"
    by blast
  from check_tolerates_nil_callbacks [of world0 "without_callbacks loader1" runtime1] b
  have 2: "\<exists>l' rt'. check world0 (without_callbacks loader1) runtime1 = Inr (l', rt')
         \<and> (\<forall>f. EvCall0 f \<notin> set (new_events runtime1 rt'))"
    by blast
  from a b 1 2 show ?thesis by blast
qed

section \<open>The mutex\<close>

lemma lock_held_append: "lock_held h (xs @ ys) = lock_held (lock_held h xs) ys"
  by (induction h xs rule: lock_held.induct) simp_all

lemma critical_append: "critical h (xs @ ys) = critical h xs @ critical (lock_held h xs) ys"
  by (induction h xs rule: critical.induct) simp_all

lemma critical_held_head:
  assumes "e \<noteq> EvLock" and "e \<noteq> EvUnlock"
  shows "critical True (e # es) = e # critical True es"
  using assms by (cases e) simp_all

lemma in_critical:
  assumes "lock_held h pre" and "e \<noteq> EvLock" and "e \<noteq> EvUnlock"
  shows "e \<in> set (critical h (pre @ e # post))"
proof -
  have "critical h (pre @ e # post) = critical h pre @ critical True (e # post)"
    using assms(1) by (simp add: critical_append)
  then show ?thesis
    using assms(2,3) by (simp add: critical_held_head)
qed

lemma free_outside_critical:
  assumes "\<forall>x \<in> set (critical h evs). is_store x"
    and "evs = pre @ e # post" and "is_io e \<or> is_call e"
  shows "\<not> lock_held h pre"
proof
  assume held: "lock_held h pre"
  have "e \<noteq> EvLock" and "e \<noteq> EvUnlock"
    using assms(3) by auto
  with held have "e \<in> set (critical h (pre @ e # post))"
    by (rule in_critical)
  with assms(1,2) have "is_store e" by simp
  with assms(3) show False by (cases e) simp_all
qed

lemma critical_error_calls [simp]: "critical False (error_calls cfg err) = []"
  by (simp add: error_calls_def split: option.splits)

lemma critical_reload_calls [simp]: "critical False (reload_calls cfg) = []"
  by (simp add: reload_calls_def split: option.splits)

lemma lock_held_error_calls [simp]: "lock_held h (error_calls cfg err) = h"
  by (simp add: error_calls_def split: option.splits)

lemma lock_held_reload_calls [simp]: "lock_held h (reload_calls cfg) = h"
  by (simp add: reload_calls_def split: option.splits)

lemma swap_only_other:
  assumes "e \<noteq> EvLock" and "e \<noteq> EvUnlock"
  shows "swap_only h (e # es) = ((h \<longrightarrow> is_swap e) \<and> swap_only h es)"
  using assms by (cases e) simp_all

lemma swap_only_until_unlock:
  assumes "swap_only True es"
  shows "EvUnlock \<in> set es \<and> (\<forall>e \<in> set (takeWhile (\<lambda>e. e \<noteq> EvUnlock) es). is_swap e)"
  using assms
proof (induction es)
  case Nil
  then show ?case by simp
next
  case (Cons e es)
  show ?case
  proof (cases "e = EvLock \<or> e = EvUnlock")
    case True
    with Cons.prems show ?thesis by auto
  next
    case False
    with Cons.prems have "is_swap e" and "swap_only True es"
      by (simp_all add: swap_only_other)
    with Cons.IH False show ?thesis by simp
  qed
qed

lemma move_disciplined:
  assumes "disciplined c"
  shows "disciplined (move g c)"
proof (cases "todo g c")
  case Nil
  with assms show ?thesis by (simp add: move_def)
next
  case (Cons e es)
  show ?thesis
  proof (cases "e = EvLock \<or> e = EvUnlock")
    case True
    with assms Cons show ?thesis
      by (cases g) (auto simp add: move_def disciplined_def todo_def set_todo_def)
  next
    case False
    with assms Cons show ?thesis
      by (cases g) (auto simp add: move_def disciplined_def todo_def set_todo_def swap_only_other)
  qed
qed

lemma schedule_disciplined:
  assumes "disciplined c"
  shows "disciplined (schedule gs c)"
  using assms by (induction gs arbitrary: c) (simp_all add: move_disciplined)

lemma reader_waits_for_swap:
  assumes "disciplined c" and "waits Reader c"
  shows "holder c = Some Reloader \<and> EvUnlock \<in> set (reload_todo c)
         \<and> (\<forall>e \<in> set (takeWhile (\<lambda>e. e \<noteq> EvUnlock) (reload_todo c)). is_swap e)"
proof -
  from assms(2) obtain es where t: "read_todo c = EvLock # es" and h: "holder c \<noteq> None"
    by (auto simp add: waits_def todo_def split: list.splits)
  from assms(1) t have "holder c \<noteq> Some Reader"
    by (auto simp add: disciplined_def)
  with h have r: "holder c = Some Reloader"
    by (cases "holder c") (auto intro: goroutine.exhaust)
  with assms(1) have "swap_only True (reload_todo c)"
    by (simp add: disciplined_def)
  from swap_only_until_unlock [OF this] r show ?thesis by simp
qed

lemma swap_only_error_calls [simp]: "swap_only False (error_calls cfg err)"
  by (simp add: error_calls_def split: option.splits)

lemma swap_only_reload_calls [simp]: "swap_only False (reload_calls cfg)"
  by (simp add: reload_calls_def split: option.splits)

lemma check_lock_scope:
  "\<exists>l' rt'. check w l rt = Inr (l', rt')
     \<and> \<not> lock_held False (new_events rt rt')
     \<and> swap_only False (new_events rt rt')
     \<and> (critical False (new_events rt rt') = []
          \<or> (\<exists>p. critical False (new_events rt rt') = [EvStoreCertificate p] \<and> certificate l' = p))"
proof (cases "cert_stat w (config l) rt")
  case (Inl err)
  show ?thesis unfolding check_stat_cert_fails [OF Inl] by simp
next
  case sc: (Inr sc)
  show ?thesis
  proof (cases "key_stat w (config l) rt")
    case (Inl err)
    show ?thesis unfolding check_stat_key_fails [OF sc Inl] by simp
  next
    case sk: (Inr sk)
    show ?thesis
    proof (cases "UnixMilli (ModTime sk) = UnixMilli (keyModTime l)
              \<and> UnixMilli (ModTime sc) = UnixMilli (certModTime l)")
      case True
      show ?thesis unfolding check_unchanged [OF sc sk True] by simp
    next
      case False
      show ?thesis
      proof (cases "pair_load w (config l) rt")
        case (Inl err)
        show ?thesis unfolding check_load_fails [OF sc sk False Inl] by simp
      next
        case (Inr c)
        show ?thesis unfolding check_reloaded [OF sc sk False Inr]
          by (simp add: critical_append lock_held_append)
      qed
    qed
  qed
qed

lemma GetCertificate_result:
  "GetCertificate info l rt = ((certificate l, None), rt\<lparr>trace := trace rt @ [EvLock, EvUnlock]\<rparr>)"
  by (simp add: GetCertificate_def prims)

text \<open>
  C7. A goroutine that calls \<open>Lock\<close> waits only while another one holds the mutex. In
  every check cycle the mutex is free again at the end; the only thing that happens while
  it is held is the store of the certificate pointer (and the cycles that do not reload
  never take it); and at every file access (a stat or the load, which reads and parses
  both files) and at every callback the cycle does not hold it. \<open>GetCertificate\<close> itself
  does nothing between its \<open>Lock\<close> and its \<open>Unlock\<close> but read the pointer. So, however a
  reader that calls \<open>GetCertificate\<close> and the check cycle are interleaved: whenever the
  reader waits for the mutex, it is the cycle that holds it, and all the cycle still does
  before its \<open>Unlock\<close> is the store of the pointer. A reader never waits while the cycle
  stats, reads or parses.
\<close>

theorem lock_only_around_swap:
  "\<exists>l' rt'. check w l rt = Inr (l', rt')
     \<and> \<not> lock_held False (new_events rt rt')
     \<and> (critical False (new_events rt rt') = []
          \<or> critical False (new_events rt rt') = [EvStoreCertificate (certificate l')])
     \<and> (\<forall>pre e post. new_events rt rt' = pre @ e # post \<and> (is_io e \<or> is_call e)
            \<longrightarrow> \<not> lock_held False pre)
     \<and> new_events rt (snd (GetCertificate info l rt)) = [EvLock, EvUnlock]
     \<and> (\<forall>gs c. c = schedule gs \<lparr>reload_todo = new_events rt rt',
                                  read_todo = new_events rt (snd (GetCertificate info l rt)),
                                  holder = None\<rparr>
               \<and> waits Reader c
            \<longrightarrow> holder c = Some Reloader \<and> EvUnlock \<in> set (reload_todo c)
                \<and> (\<forall>e \<in> set (takeWhile (\<lambda>e. e \<noteq> EvUnlock) (reload_todo c)). is_swap e))"
proof -
  obtain l' rt' where r: "check w l rt = Inr (l', rt')"
    and h: "\<not> lock_held False (new_events rt rt')"
    and s: "swap_only False (new_events rt rt')"
    and c: "critical False (new_events rt rt') = []
          \<or> (\<exists>p. critical False (new_events rt rt') = [EvStoreCertificate p] \<and> certificate l' = p)"
    using check_lock_scope [of w l rt] by blast
  from c have st: "\<forall>x \<in> set (critical False (new_events rt rt')). is_store x"
    by auto
  have f: "\<forall>pre e post. new_events rt rt' = pre @ e # post \<and> (is_io e \<or> is_call e)
            \<longrightarrow> \<not> lock_held False pre"
    using free_outside_critical [OF st] by blast
  from c have c': "critical False (new_events rt rt') = []
          \<or> critical False (new_events rt rt') = [EvStoreCertificate (certificate l')]"
    by auto
  have g: "new_events rt (snd (GetCertificate info l rt)) = [EvLock, EvUnlock]"
    by (simp add: GetCertificate_result)
  have "disciplined \<lparr>reload_todo = new_events rt rt',
                     read_todo = new_events rt (snd (GetCertificate info l rt)), holder = None\<rparr>"
    using s by (simp add: disciplined_def g)
  then have "\<And>gs. disciplined (schedule gs \<lparr>reload_todo = new_events rt rt',
                     read_todo = new_events rt (snd (GetCertificate info l rt)), holder = None\<rparr>)"
    by (rule schedule_disciplined)
  then have i: "\<forall>gs c. c = schedule gs \<lparr>reload_todo = new_events rt rt',
                                  read_todo = new_events rt (snd (GetCertificate info l rt)),
                                  holder = None\<rparr>
               \<and> waits Reader c
            \<longrightarrow> holder c = Some Reloader \<and> EvUnlock \<in> set (reload_todo c)
                \<and> (\<forall>e \<in> set (takeWhile (\<lambda>e. e \<noteq> EvUnlock) (reload_todo c)). is_swap e)"
    using reader_waits_for_swap by blast
  from r h c' f g i show ?thesis by blast
qed

lemma check0:
  "check world0 loader1 runtime1 =
     Inr (loader1\<lparr>certModTime := Time 200 500000000, keyModTime := Time 200 500000000,
                 certificate := Some 1\<rparr>,
          runtime1\<lparr>heap := heap runtime1 @ [Certificate [''chain 2''] ''key''],
                   trace := trace runtime1 @
                     [EvStat ''cert.pem'', EvStat ''key.pem'',
                      EvLoadX509KeyPair ''cert.pem'' ''key.pem'',
                      EvStoreCertModTime (Time 200 500000000),
                      EvStoreKeyModTime (Time 200 500000000),
                      EvLock, EvStoreCertificate (Some 1), EvUnlock,
                      EvCall0 (Closure ''onReload'')]\<rparr>)"
proof -
  have a: "cert_stat world0 (config loader1) runtime1 = Inr \<lparr>ModTime = Time 200 500000000\<rparr>"
    and b: "key_stat world0 (config loader1) runtime1 = Inr \<lparr>ModTime = Time 200 500000000\<rparr>"
    and d: "pair_load world0 (config loader1) runtime1 = Inr (Certificate [''chain 2''] ''key'')"
    by (simp_all add: cert_stat_def key_stat_def pair_load_def inputs)
  have c: "\<not> (UnixMilli (ModTime \<lparr>ModTime = Time 200 500000000\<rparr>) = UnixMilli (keyModTime loader1)
            \<and> UnixMilli (ModTime \<lparr>ModTime = Time 200 500000000\<rparr>) = UnixMilli (certModTime loader1))"
    by (simp add: UnixMilli_def inputs)
  show ?thesis
    unfolding check_reloaded [OF a b c d]
    by (simp add: reload_calls_def inputs)
qed

theorem lock_only_around_swap_witness:
  "\<exists>l' rt'. check world0 loader1 runtime1 = Inr (l', rt')
     \<and> new_events runtime1 rt'
         = [EvStat ''cert.pem'', EvStat ''key.pem''] @ EvLoadX509KeyPair ''cert.pem'' ''key.pem''
           # [EvStoreCertModTime (Time 200 500000000), EvStoreKeyModTime (Time 200 500000000),
              EvLock, EvStoreCertificate (Some 1), EvUnlock, EvCall0 (Closure ''onReload'')]
     \<and> is_io (EvLoadX509KeyPair ''cert.pem'' ''key.pem'')
     \<and> \<not> lock_held False [EvStat ''cert.pem'', EvStat ''key.pem'']
     \<and> waits Reader
          (schedule [Reloader, Reloader, Reloader, Reloader, Reloader, Reloader, Reader]
             \<lparr>reload_todo = new_events runtime1 rt', read_todo = [EvLock, EvUnlock],
              holder = None\<rparr>)
     \<and> reload_todo
          (schedule [Reloader, Reloader, Reloader, Reloader, Reloader, Reloader, Reader]
             \<lparr>reload_todo = new_events runtime1 rt', read_todo = [EvLock, EvUnlock],
              holder = None\<rparr>)
         = [EvStoreCertificate (Some 1), EvUnlock, EvCall0 (Closure ''onReload'')]
     \<and> holder
          (schedule [Reloader, Reloader, Reloader, Reloader, Reloader, Reloader, Reader]
             \<lparr>reload_todo = new_events runtime1 rt', read_todo = [EvLock, EvUnlock],
              holder = None\<rparr>)
         = Some Reloader"
proof -
  from lock_only_around_swap [of world0 loader1 runtime1 None]
  obtain l' rt' where r: "check world0 loader1 runtime1 = Inr (l', rt')"
    and f: "\<forall>pre e post. new_events runtime1 rt' = pre @ e # post \<and> (is_io e \<or> is_call e)
            \<longrightarrow> \<not> lock_held False pre"
    and g: "new_events runtime1 (snd (GetCertificate None loader1 runtime1)) = [EvLock, EvUnlock]"
    and i: "\<forall>gs c. c = schedule gs \<lparr>reload_todo = new_events runtime1 rt',
                       read_todo = new_events runtime1 (snd (GetCertificate None loader1 runtime1)),
                       holder = None\<rparr>
               \<and> waits Reader c
            \<longrightarrow> holder c = Some Reloader \<and> EvUnlock \<in> set (reload_todo c)
                \<and> (\<forall>e \<in> set (takeWhile (\<lambda>e. e \<noteq> EvUnlock) (reload_todo c)). is_swap e)"
    by blast
  from r have n: "new_events runtime1 rt'
         = [EvStat ''cert.pem'', EvStat ''key.pem''] @ EvLoadX509KeyPair ''cert.pem'' ''key.pem''
           # [EvStoreCertModTime (Time 200 500000000), EvStoreKeyModTime (Time 200 500000000),
              EvLock, EvStoreCertificate (Some 1), EvUnlock, EvCall0 (Closure ''onReload'')]"
    unfolding check0 by auto
  have io: "is_io (EvLoadX509KeyPair ''cert.pem'' ''key.pem'')" by simp
  from f n io have u: "\<not> lock_held False [EvStat ''cert.pem'', EvStat ''key.pem'']"
    by blast
  let ?c = "schedule [Reloader, Reloader, Reloader, Reloader, Reloader, Reloader, Reader]
             \<lparr>reload_todo = new_events runtime1 rt', read_todo = [EvLock, EvUnlock],
              holder = None\<rparr>"
  have w: "waits Reader ?c"
    and t: "reload_todo ?c = [EvStoreCertificate (Some 1), EvUnlock, EvCall0 (Closure ''onReload'')]"
    unfolding n by (simp_all add: move_def todo_def set_todo_def waits_def)
  have e: "?c = schedule [Reloader, Reloader, Reloader, Reloader, Reloader, Reloader, Reader]
             \<lparr>reload_todo = new_events runtime1 rt',
              read_todo = new_events runtime1 (snd (GetCertificate None loader1 runtime1)),
              holder = None\<rparr>"
    by (simp only: g)
  from i e w have "holder ?c = Some Reloader"
    by blast
  with r n io u w t show ?thesis by blast
qed

lemma New_stat_cert_fails:
  assumes "cert_stat w cfg rt = Inl err"
  shows "NewTlsCertificateLoader w cfg rt
    = ((None, Some err), rt\<lparr>trace := trace rt @ [EvStat (CertificatePath cfg)]\<rparr>)"
  using assms by (simp add: NewTlsCertificateLoader_def prims cert_stat_def)

lemma New_stat_key_fails:
  assumes "cert_stat w cfg rt = Inr sc" and "key_stat w cfg rt = Inl err"
  shows "NewTlsCertificateLoader w cfg rt
    = ((None, Some err), rt\<lparr>trace := trace rt @ [EvStat (CertificatePath cfg), EvStat (KeyPath cfg)]\<rparr>)"
  using assms by (simp add: NewTlsCertificateLoader_def prims cert_stat_def key_stat_def)

lemma New_load_fails:
  assumes "cert_stat w cfg rt = Inr sc" and "key_stat w cfg rt = Inr sk"
    and "pair_load w cfg rt = Inl err"
  shows "NewTlsCertificateLoader w cfg rt
    = ((None, Some err),
       rt\<lparr>trace := trace rt @ [EvStat (CertificatePath cfg), EvStat (KeyPath cfg),
                                EvLoadX509KeyPair (CertificatePath cfg) (KeyPath cfg)]\<rparr>)"
  using assms
  by (simp add: NewTlsCertificateLoader_def prims cert_stat_def key_stat_def pair_load_def)

lemma New_succeeds:
  assumes "cert_stat w cfg rt = Inr sc" and "key_stat w cfg rt = Inr sk"
    and "pair_load w cfg rt = Inr c"
  shows "NewTlsCertificateLoader w cfg rt
    = ((Some \<lparr>config = cfg, closed = False,
              closeChan = (if 0 < CheckReloadPeriod cfg then Some (length (chans rt)) else None),
              certificate = Some (length (heap rt)),
              certModTime = ModTime sc, keyModTime = ModTime sk\<rparr>, None),
       (if 0 < CheckReloadPeriod cfg
        then rt\<lparr>heap := heap rt @ [c],
                chans := chans rt @ [\<lparr>capacity = 1, buffered = 0\<rparr>],
                trace := trace rt @ [EvStat (CertificatePath cfg), EvStat (KeyPath cfg),
                                     EvLoadX509KeyPair (CertificatePath cfg) (KeyPath cfg),
                                     EvMakeChan (length (chans rt)), EvGoRun]\<rparr>
        else rt\<lparr>heap := heap rt @ [c],
                trace := trace rt @ [EvStat (CertificatePath cfg), EvStat (KeyPath cfg),
                                     EvLoadX509KeyPair (CertificatePath cfg) (KeyPath cfg)]\<rparr>))"
  using assms
  by (simp add: NewTlsCertificateLoader_def prims cert_stat_def key_stat_def pair_load_def Let_def)

lemma new_events_append_heap_chans [simp]:
  "new_events rt (rt\<lparr>heap := h, chans := cs, trace := trace rt @ es\<rparr>) = es"
  by (simp add: new_events_def)

text \<open>
  C4. When the stat of the certificate file, the stat of the key file or the first load
  returns an error, \<open>NewTlsCertificateLoader\<close> returns \<open>nil\<close> and that error, allocates no
  certificate and no channel, starts no goroutine and calls no callback. When all three
  succeed it returns a \<open>nil\<close> error and an open loader whose certificate pointer is a
  fresh address holding the loaded pair and whose stored modification times are the ones
  the two stats returned; it starts the goroutine \<open>run\<close> (once) if and only if
  \<open>CheckReloadPeriod\<close> is greater than 0, and only then makes the channel.
\<close>

theorem NewTlsCertificateLoader_fails_or_loads:
  "(cert_stat w cfg rt = Inl err
      \<or> cert_stat w cfg rt = Inr sc \<and> key_stat w cfg rt = Inl err
      \<or> cert_stat w cfg rt = Inr sc \<and> key_stat w cfg rt = Inr sk \<and> pair_load w cfg rt = Inl err
    \<longrightarrow> (\<exists>rt'. NewTlsCertificateLoader w cfg rt = ((None, Some err), rt')
           \<and> heap rt' = heap rt \<and> chans rt' = chans rt
           \<and> EvGoRun \<notin> set (new_events rt rt')
           \<and> filter is_call (new_events rt rt') = []))
   \<and> (cert_stat w cfg rt = Inr sc \<and> key_stat w cfg rt = Inr sk \<and> pair_load w cfg rt = Inr c
    \<longrightarrow> (\<exists>rt'. NewTlsCertificateLoader w cfg rt
             = ((Some \<lparr>config = cfg, closed = False,
                       closeChan = (if 0 < CheckReloadPeriod cfg
                                    then Some (length (chans rt)) else None),
                       certificate = Some (length (heap rt)),
                       certModTime = ModTime sc, keyModTime = ModTime sk\<rparr>, None), rt')
           \<and> heap rt' = heap rt @ [c] \<and> heap rt' ! length (heap rt) = c
           \<and> (EvGoRun \<in> set (new_events rt rt') \<longleftrightarrow> 0 < CheckReloadPeriod cfg)
           \<and> length (filter (\<lambda>e. e = EvGoRun) (new_events rt rt')) \<le> 1
           \<and> filter is_call (new_events rt rt') = []))"
proof (intro conjI impI)
  assume "cert_stat w cfg rt = Inl err
      \<or> cert_stat w cfg rt = Inr sc \<and> key_stat w cfg rt = Inl err
      \<or> cert_stat w cfg rt = Inr sc \<and> key_stat w cfg rt = Inr sk \<and> pair_load w cfg rt = Inl err"
  then consider (a) "cert_stat w cfg rt = Inl err"
    | (b) "cert_stat w cfg rt = Inr sc" "key_stat w cfg rt = Inl err"
    | (c) "cert_stat w cfg rt = Inr sc" "key_stat w cfg rt = Inr sk" "pair_load w cfg rt = Inl err"
    by blast
  then show "\<exists>rt'. NewTlsCertificateLoader w cfg rt = ((None, Some err), rt')
           \<and> heap rt' = heap rt \<and> chans rt' = chans rt
           \<and> EvGoRun \<notin> set (new_events rt rt')
           \<and> filter is_call (new_events rt rt') = []"
  proof cases
    case a
    show ?thesis unfolding New_stat_cert_fails [OF a] by simp
  next
    case b
    show ?thesis unfolding New_stat_key_fails [OF b] by simp
  next
    case c
    show ?thesis unfolding New_load_fails [OF c] by simp
  qed
next
  assume "cert_stat w cfg rt = Inr sc \<and> key_stat w cfg rt = Inr sk \<and> pair_load w cfg rt = Inr c"
  then have s: "cert_stat w cfg rt = Inr sc" "key_stat w cfg rt = Inr sk" "pair_load w cfg rt = Inr c"
    by simp_all
  show "\<exists>rt'. NewTlsCertificateLoader w cfg rt
             = ((Some \<lparr>config = cfg, closed = False,
                       closeChan = (if 0 < CheckReloadPeriod cfg
                                    then Some (length (chans rt)) else None),
                       certificate = Some (length (heap rt)),
                       certModTime = ModTime sc, keyModTime = ModTime sk\<rparr>, None), rt')
           \<and> heap rt' = heap rt @ [c] \<and> heap rt' ! length (heap rt) = c
           \<and> (EvGoRun \<in> set (new_events rt rt') \<longleftrightarrow> 0 < CheckReloadPeriod cfg)
           \<and> length (filter (\<lambda>e. e = EvGoRun) (new_events rt rt')) \<le> 1
           \<and> filter is_call (new_events rt rt') = []"
    unfolding New_succeeds [OF s]
    by simp
qed

theorem NewTlsCertificateLoader_fails_or_loads_witness:
  "(\<exists>rt'. NewTlsCertificateLoader world0 config_missing runtime0
             = ((None, Some (Error ''stat: no such file or directory'')), rt')
      \<and> EvGoRun \<notin> set (new_events runtime0 rt')
      \<and> filter is_call (new_events runtime0 rt') = [])
   \<and> (\<exists>rt'. NewTlsCertificateLoader world0 config0 runtime0 = ((Some loader1, None), rt')
      \<and> heap rt' = [Certificate [''chain 1''] ''key'']
      \<and> EvGoRun \<in> set (new_events runtime0 rt'))
   \<and> (\<exists>rt'. NewTlsCertificateLoader world0 config_once runtime0 = ((Some loader_once, None), rt')
      \<and> heap rt' = [Certificate [''chain 1''] ''key'']
      \<and> EvGoRun \<notin> set (new_events runtime0 rt'))"
proof -
  have a: "cert_stat world0 config_missing runtime0 = Inl (Error ''stat: no such file or directory'')"
    by (simp add: cert_stat_def config_missing_def inputs)
  have b: "cert_stat world0 config0 runtime0 = Inr \<lparr>ModTime = Time 100 0\<rparr>
         \<and> key_stat world0 config0 runtime0 = Inr \<lparr>ModTime = Time 100 0\<rparr>
         \<and> pair_load world0 config0 runtime0 = Inr (Certificate [''chain 1''] ''key'')"
    by (simp add: cert_stat_def key_stat_def pair_load_def inputs)
  have c: "cert_stat world0 config_once runtime0 = Inr \<lparr>ModTime = Time 100 0\<rparr>
         \<and> key_stat world0 config_once runtime0 = Inr \<lparr>ModTime = Time 100 0\<rparr>
         \<and> pair_load world0 config_once runtime0 = Inr (Certificate [''chain 1''] ''key'')"
    by (simp add: cert_stat_def key_stat_def pair_load_def inputs)
  have l1: "loader1 = \<lparr>config = config0, closed = False,
                       closeChan = (if 0 < CheckReloadPeriod config0
                                    then Some (length (chans runtime0)) else None),
                       certificate = Some (length (heap runtime0)),
                       certModTime = ModTime \<lparr>ModTime = Time 100 0\<rparr>, keyModTime = ModTime \<lparr>ModTime = Time 100 0\<rparr>\<rparr>"
    by (simp add: inputs)
  have l2: "loader_once = \<lparr>config = config_once, closed = False,
                       closeChan = (if 0 < CheckReloadPeriod config_once
                                    then Some (length (chans runtime0)) else None),
                       certificate = Some (length (heap runtime0)),
                       certModTime = ModTime \<lparr>ModTime = Time 100 0\<rparr>, keyModTime = ModTime \<lparr>ModTime = Time 100 0\<rparr>\<rparr>"
    by (simp add: inputs)
  have p: "0 < CheckReloadPeriod config0" "\<not> 0 < CheckReloadPeriod config_once" "heap runtime0 = []"
    by (simp_all add: inputs)
  note t = NewTlsCertificateLoader_fails_or_loads
  from t [of world0 config_missing runtime0 "Error ''stat: no such file or directory''"
          "\<lparr>ModTime = Time 0 0\<rparr>" "\<lparr>ModTime = Time 0 0\<rparr>" "Certificate [] []"] a
  have 1: "\<exists>rt'. NewTlsCertificateLoader world0 config_missing runtime0
             = ((None, Some (Error ''stat: no such file or directory'')), rt')
      \<and> EvGoRun \<notin> set (new_events runtime0 rt')
      \<and> filter is_call (new_events runtime0 rt') = []"
    by blast
  from t [of world0 config0 runtime0 "Error []" "\<lparr>ModTime = Time 100 0\<rparr>" "\<lparr>ModTime = Time 100 0\<rparr>"
          "Certificate [''chain 1''] ''key''"] b
  have 2: "\<exists>rt'. NewTlsCertificateLoader world0 config0 runtime0 = ((Some loader1, None), rt')
      \<and> heap rt' = [Certificate [''chain 1''] ''key'']
      \<and> EvGoRun \<in> set (new_events runtime0 rt')"
    unfolding l1 [symmetric] using p by auto
  from t [of world0 config_once runtime0 "Error []" "\<lparr>ModTime = Time 100 0\<rparr>" "\<lparr>ModTime = Time 100 0\<rparr>"
          "Certificate [''chain 1''] ''key''"] c
  have 3: "\<exists>rt'. NewTlsCertificateLoader world0 config_once runtime0 = ((Some loader_once, None), rt')
      \<and> heap rt' = [Certificate [''chain 1''] ''key'']
      \<and> EvGoRun \<notin> set (new_events runtime0 rt')"
    unfolding l2 [symmetric] using p by auto
  from 1 2 3 show ?thesis by blast
qed

section \<open>Any sequence of calls after the construction\<close>

lemma loads_of_append:
  "loads_of w n (xs @ ys) = loads_of w n xs @ loads_of w (n + length xs) ys"
  by (induction w n xs rule: loads_of.induct) (simp_all split: sum.splits)

lemma loader_inv_extend:
  assumes "loader_inv w n l rt" and "filter is_send es = []"
  shows "loader_inv w n l (rt\<lparr>trace := trace rt @ es\<rparr>)"
  using assms
  by (auto simp add: loader_inv_def loads_of_append split: option.splits)

lemma send_free_error_calls [simp]: "filter is_send (error_calls cfg err) = []"
  by (simp add: error_calls_def split: option.splits)

lemma send_free_reload_calls [simp]: "filter is_send (reload_calls cfg) = []"
  by (simp add: reload_calls_def split: option.splits)

lemma loads_of_reload_calls [simp]: "loads_of w n (reload_calls cfg) = []"
  by (simp add: reload_calls_def split: option.splits)

lemma check_inv:
  assumes inv: "loader_inv w n l rt"
  shows "\<exists>l' rt'. check w l rt = Inr (l', rt') \<and> loader_inv w n l' rt'
           \<and> closed l' = closed l \<and> closeChan l' = closeChan l \<and> config l' = config l"
proof (cases "cert_stat w (config l) rt")
  case (Inl err)
  show ?thesis
    unfolding check_stat_cert_fails [OF Inl]
    using loader_inv_extend [OF inv] by simp
next
  case sc: (Inr sc)
  show ?thesis
  proof (cases "key_stat w (config l) rt")
    case (Inl err)
    show ?thesis
      unfolding check_stat_key_fails [OF sc Inl]
      using loader_inv_extend [OF inv] by simp
  next
    case sk: (Inr sk)
    show ?thesis
    proof (cases "UnixMilli (ModTime sk) = UnixMilli (keyModTime l)
                  \<and> UnixMilli (ModTime sc) = UnixMilli (certModTime l)")
      case True
      show ?thesis
        unfolding check_unchanged [OF sc sk True]
        using loader_inv_extend [OF inv] by simp
    next
      case False
      show ?thesis
      proof (cases "pair_load w (config l) rt")
        case (Inl err)
        show ?thesis
          unfolding check_load_fails [OF sc sk False Inl]
          using loader_inv_extend [OF inv] by simp
      next
        case (Inr c)
        have "load_at w (Suc (Suc (length (trace rt)))) (CertificatePath (config l)) (KeyPath (config l)) = Inr c"
          using Inr by (simp add: pair_load_def)
        then show ?thesis
          unfolding check_reloaded [OF sc sk False Inr]
          using inv
          by (auto simp add: loader_inv_def loads_of_append nth_append split: option.splits)
      qed
    qed
  qed
qed

lemma Close_open_chan:
  assumes "loader_inv w n l rt" and "\<not> closed l" and "closeChan l = Some c"
  shows "Close l rt =
    Inr (l\<lparr>closed := True\<rparr>,
         rt\<lparr>chans := (chans rt)[c := (chans rt ! c)\<lparr>buffered := Suc 0\<rparr>],
            trace := trace rt @ [EvLock, EvStoreClosed True, EvUnlock, EvSend c]\<rparr>)"
  using assms
  by (simp add: Close_def prims loader_inv_def)

lemma Close_no_send:
  assumes "closed l \<or> closeChan l = None"
  shows "Close l rt =
    Inr (l\<lparr>closed := True\<rparr>, rt\<lparr>trace := trace rt @ [EvLock, EvStoreClosed True, EvUnlock]\<rparr>)"
  using assms
  by (auto simp add: Close_def prims)

lemma Close_inv:
  assumes inv: "loader_inv w n l rt"
  shows "\<exists>l' rt'. Close l rt = Inr (l', rt') \<and> loader_inv w n l' rt'
           \<and> closed l' \<and> closeChan l' = closeChan l \<and> config l' = config l"
proof (cases "\<not> closed l \<and> closeChan l \<noteq> None")
  case True
  then obtain c where c: "closeChan l = Some c" and o: "\<not> closed l" by auto
  show ?thesis
    unfolding Close_open_chan [OF inv o c]
    using inv c o
    by (auto simp add: loader_inv_def loads_of_append split: option.splits)
next
  case False
  then have f: "closed l \<or> closeChan l = None" by simp
  show ?thesis
    unfolding Close_no_send [OF f]
    using inv f
    by (auto simp add: loader_inv_def loads_of_append split: option.splits)
qed

lemma IsClosed_result:
  "IsClosed l rt = (closed l, rt\<lparr>trace := trace rt @ [EvLock, EvUnlock]\<rparr>)"
  by (simp add: IsClosed_def prims)

lemma Receive_inv:
  assumes inv: "loader_inv w n l rt"
  shows "\<exists>rt'. (case chan_recv (closeChan l) rt of None \<Rightarrow> Inr (l, rt) | Some rt' \<Rightarrow> Inr (l, rt'))
             = (Inr (l, rt') :: fault + (TlsCertificateLoader \<times> runtime))
           \<and> loader_inv w n l rt'"
  using inv
  by (auto simp add: chan_recv_def loader_inv_def split: option.splits)

lemma exec_step_inv:
  assumes inv: "loader_inv w n l rt"
  shows "\<exists>l' rt'. exec_step w st l rt = Inr (l', rt') \<and> loader_inv w n l' rt'
           \<and> (closed l' \<longleftrightarrow> closed l \<or> st = CallClose)
           \<and> closeChan l' = closeChan l \<and> config l' = config l"
proof (cases st)
  case Check
  then show ?thesis using check_inv [OF inv] by (simp add: exec_step_def)
next
  case Receive
  then show ?thesis using Receive_inv [OF inv] by (auto simp add: exec_step_def)
next
  case CallClose
  then show ?thesis using Close_inv [OF inv] by (simp add: exec_step_def)
next
  case CallIsClosed
  then show ?thesis
    using loader_inv_extend [OF inv, of "[EvLock, EvUnlock]"]
    by (simp add: exec_step_def IsClosed_result)
next
  case (CallGetCertificate info)
  then show ?thesis
    using loader_inv_extend [OF inv, of "[EvLock, EvUnlock]"]
    by (simp add: exec_step_def GetCertificate_result)
qed

lemma exec_steps_inv:
  assumes "loader_inv w n l rt"
  shows "\<exists>l' rt'. exec_steps w sts l rt = Inr (l', rt') \<and> loader_inv w n l' rt'
           \<and> (closed l' \<longleftrightarrow> closed l \<or> CallClose \<in> set sts)
           \<and> closeChan l' = closeChan l \<and> config l' = config l"
  using assms
proof (induction sts arbitrary: l rt)
  case Nil
  then show ?case by simp
next
  case (Cons st sts)
  from exec_step_inv [OF Cons.prems, of st]
  obtain l1 rt1 where s: "exec_step w st l rt = Inr (l1, rt1)" and i: "loader_inv w n l1 rt1"
    and c: "closed l1 \<longleftrightarrow> closed l \<or> st = CallClose"
    and k: "closeChan l1 = closeChan l" "config l1 = config l"
    by blast
  from Cons.IH [OF i]
  obtain l' rt' where "exec_steps w sts l1 rt1 = Inr (l', rt')" "loader_inv w n l' rt'"
    "closed l' \<longleftrightarrow> closed l1 \<or> CallClose \<in> set sts"
    "closeChan l' = closeChan l1" "config l' = config l1"
    by blast
  with s c k show ?case by auto
qed

lemma New_inv:
  assumes "NewTlsCertificateLoader w cfg rt0 = ((Some l0, None), rt1)"
  shows "loader_inv w (length (trace rt0)) l0 rt1 \<and> \<not> closed l0 \<and> config l0 = cfg
         \<and> (closeChan l0 \<noteq> None \<longleftrightarrow> 0 < CheckReloadPeriod cfg)
         \<and> filter is_send (new_events rt0 rt1) = []"
proof (cases "cert_stat w cfg rt0")
  case (Inl err)
  from assms show ?thesis unfolding New_stat_cert_fails [OF Inl] by simp
next
  case sc: (Inr sc)
  show ?thesis
  proof (cases "key_stat w cfg rt0")
    case (Inl err)
    from assms show ?thesis unfolding New_stat_key_fails [OF sc Inl] by simp
  next
    case sk: (Inr sk)
    show ?thesis
    proof (cases "pair_load w cfg rt0")
      case (Inl err)
      from assms show ?thesis unfolding New_load_fails [OF sc sk Inl] by simp
    next
      case (Inr c)
      have "load_at w (Suc (Suc (length (trace rt0)))) (CertificatePath cfg) (KeyPath cfg) = Inr c"
        using Inr by (simp add: pair_load_def)
      with assms show ?thesis
        unfolding New_succeeds [OF sc sk Inr]
        by (auto simp add: loader_inv_def loads_of_append nth_append new_events_def split: if_splits)
    qed
  qed
qed

lemma New_go_run:
  assumes "NewTlsCertificateLoader w cfg rt0 = ((Some l0, None), rt1)"
  shows "EvGoRun \<in> set (new_events rt0 rt1) \<longleftrightarrow> 0 < CheckReloadPeriod cfg"
proof (cases "cert_stat w cfg rt0")
  case (Inl err)
  from assms show ?thesis unfolding New_stat_cert_fails [OF Inl] by simp
next
  case sc: (Inr sc)
  show ?thesis
  proof (cases "key_stat w cfg rt0")
    case (Inl err)
    from assms show ?thesis unfolding New_stat_key_fails [OF sc Inl] by simp
  next
    case sk: (Inr sk)
    show ?thesis
    proof (cases "pair_load w cfg rt0")
      case (Inl err)
      from assms show ?thesis unfolding New_load_fails [OF sc sk Inl] by simp
    next
      case (Inr c)
      from assms show ?thesis
        unfolding New_succeeds [OF sc sk Inr]
        by (auto split: if_splits)
    qed
  qed
qed

text \<open>
  C5. After a successful construction and any sequence of check cycles, receives and
  calls of \<open>Close\<close>, \<open>IsClosed\<close> and \<open>GetCertificate\<close>, no call has failed to return,
  the certificate pointer of the loader is not \<open>nil\<close>, it points to an allocated value,
  and that value is one a successful \<open>tls.LoadX509KeyPair\<close> of this run returned.
  \<open>GetCertificate\<close> returns that pointer and a \<open>nil\<close> error whatever its argument is.
\<close>

theorem loader_always_holds_parsed_pair:
  assumes "NewTlsCertificateLoader w cfg rt0 = ((Some l0, None), rt1)"
  shows "\<exists>l rt a. exec_steps w sts l0 rt1 = Inr (l, rt)
           \<and> certificate l = Some a \<and> a < length (heap rt)
           \<and> heap rt ! a \<in> set (loads_of w 0 (trace rt))
           \<and> GetCertificate info l rt
               = ((Some a, None), rt\<lparr>trace := trace rt @ [EvLock, EvUnlock]\<rparr>)
           \<and> GetCertificate info l rt = GetCertificate None l rt"
proof -
  from New_inv [OF assms] have "loader_inv w (length (trace rt0)) l0 rt1"
    by simp
  from exec_steps_inv [OF this, of sts]
  obtain l rt where e: "exec_steps w sts l0 rt1 = Inr (l, rt)"
    and i: "loader_inv w (length (trace rt0)) l rt"
    by blast
  from i obtain a where "certificate l = Some a" "a < length (heap rt)"
    "heap rt ! a \<in> set (loads_of w 0 (trace rt))"
    by (auto simp add: loader_inv_def split: option.splits)
  with e show ?thesis
    by (simp add: GetCertificate_result)
qed

theorem loader_always_holds_parsed_pair_witness:
  "NewTlsCertificateLoader world0 config0 runtime0 = ((Some loader1, None), runtime1)
   \<and> (\<exists>l rt a. exec_steps world0 [Check, CallClose, CallGetCertificate None, Receive, Check] loader1 runtime1
                  = Inr (l, rt)
         \<and> certificate l = Some a \<and> a < length (heap rt)
         \<and> heap rt ! a \<in> set (loads_of world0 0 (trace rt))
         \<and> GetCertificate (Some (ClientHelloInfo ''example.org'')) l rt
             = ((Some a, None), rt\<lparr>trace := trace rt @ [EvLock, EvUnlock]\<rparr>)
         \<and> GetCertificate (Some (ClientHelloInfo ''example.org'')) l rt = GetCertificate None l rt)"
proof -
  have h: "NewTlsCertificateLoader world0 config0 runtime0 = ((Some loader1, None), runtime1)"
    by (simp add: NewTlsCertificateLoader_def prims inputs)
  show ?thesis
    by (rule conjI [OF h loader_always_holds_parsed_pair [OF h]])
qed

text \<open>
  C6. After a successful construction and any sequence of calls, the loader is closed
  exactly when the sequence contains a \<open>Close\<close> (so it is open before the first one,
  closed after it, and never open again), \<open>IsClosed\<close> returns just that, and the number
  of elements sent on the close channel since before the construction is 1 when there was
  a \<open>Close\<close> and a channel, and 0 otherwise. One more \<open>Close\<close> returns, after it
  \<open>IsClosed\<close> returns true, and it sends only when it is the first (and the loader has a
  channel); when it is not the first it leaves the loader, the certificates and the
  channels as they are.
\<close>

theorem close_once_never_reopens:
  assumes "NewTlsCertificateLoader w cfg rt0 = ((Some l0, None), rt1)"
  shows "\<exists>l rt. exec_steps w sts l0 rt1 = Inr (l, rt)
           \<and> (closed l \<longleftrightarrow> CallClose \<in> set sts)
           \<and> (fst (IsClosed l rt) \<longleftrightarrow> CallClose \<in> set sts)
           \<and> length (filter is_send (new_events rt0 rt))
               = (if CallClose \<in> set sts \<and> 0 < CheckReloadPeriod cfg then 1 else 0)
           \<and> (\<exists>rt'. Close l rt = Inr (l\<lparr>closed := True\<rparr>, rt')
                 \<and> fst (IsClosed (l\<lparr>closed := True\<rparr>) rt')
                 \<and> filter is_send (new_events rt rt')
                     = (if CallClose \<in> set sts then []
                        else case closeChan l of None \<Rightarrow> [] | Some c \<Rightarrow> [EvSend c])
                 \<and> (CallClose \<in> set sts
                      \<longrightarrow> l\<lparr>closed := True\<rparr> = l \<and> heap rt' = heap rt \<and> chans rt' = chans rt))"
proof -
  from New_inv [OF assms] have i0: "loader_inv w (length (trace rt0)) l0 rt1"
    and o0: "\<not> closed l0" and c0: "closeChan l0 \<noteq> None \<longleftrightarrow> 0 < CheckReloadPeriod cfg"
    by simp_all
  from exec_steps_inv [OF i0, of sts]
  obtain l rt where e: "exec_steps w sts l0 rt1 = Inr (l, rt)"
    and i: "loader_inv w (length (trace rt0)) l rt"
    and c: "closed l \<longleftrightarrow> closed l0 \<or> CallClose \<in> set sts"
    and k: "closeChan l = closeChan l0"
    by blast
  from c o0 have c': "closed l \<longleftrightarrow> CallClose \<in> set sts" by simp
  have n: "length (filter is_send (new_events rt0 rt))
               = (if CallClose \<in> set sts \<and> 0 < CheckReloadPeriod cfg then 1 else 0)"
    using i c' k c0 by (simp add: loader_inv_def new_events_def)
  have "\<exists>rt'. Close l rt = Inr (l\<lparr>closed := True\<rparr>, rt')
                 \<and> fst (IsClosed (l\<lparr>closed := True\<rparr>) rt')
                 \<and> filter is_send (new_events rt rt')
                     = (if CallClose \<in> set sts then []
                        else case closeChan l of None \<Rightarrow> [] | Some c \<Rightarrow> [EvSend c])
                 \<and> (CallClose \<in> set sts
                      \<longrightarrow> l\<lparr>closed := True\<rparr> = l \<and> heap rt' = heap rt \<and> chans rt' = chans rt)"
  proof (cases "\<not> closed l \<and> closeChan l \<noteq> None")
    case True
    then obtain ch where ch: "closeChan l = Some ch" and o: "\<not> closed l" by auto
    show ?thesis
      unfolding Close_open_chan [OF i o ch]
      using o c' ch by (simp add: IsClosed_result new_events_def)
  next
    case False
    then have f: "closed l \<or> closeChan l = None" by simp
    show ?thesis
      unfolding Close_no_send [OF f]
      using f c' by (auto simp add: IsClosed_result)
  qed
  with e c' n show ?thesis
    by (simp add: IsClosed_result)
qed

theorem close_once_never_reopens_witness:
  "(\<exists>l rt. exec_steps world0 [Check, CallIsClosed] loader1 runtime1 = Inr (l, rt)
      \<and> closed l = False \<and> fst (IsClosed l rt) = False
      \<and> length (filter is_send (new_events runtime0 rt)) = 0
      \<and> (\<exists>rt'. Close l rt = Inr (l\<lparr>closed := True\<rparr>, rt')
            \<and> fst (IsClosed (l\<lparr>closed := True\<rparr>) rt')
            \<and> filter is_send (new_events rt rt')
                = (case closeChan l of None \<Rightarrow> [] | Some c \<Rightarrow> [EvSend c])))
   \<and> (\<exists>l rt. exec_steps world0 [Check, CallClose, CallIsClosed, CallClose, Check] loader1 runtime1
               = Inr (l, rt)
      \<and> closed l \<and> fst (IsClosed l rt)
      \<and> length (filter is_send (new_events runtime0 rt)) = 1
      \<and> (\<exists>rt'. Close l rt = Inr (l\<lparr>closed := True\<rparr>, rt')
            \<and> fst (IsClosed (l\<lparr>closed := True\<rparr>) rt')
            \<and> filter is_send (new_events rt rt') = []
            \<and> l\<lparr>closed := True\<rparr> = l \<and> heap rt' = heap rt \<and> chans rt' = chans rt))"
proof -
  have h: "NewTlsCertificateLoader world0 config0 runtime0 = ((Some loader1, None), runtime1)"
    by (simp add: NewTlsCertificateLoader_def prims inputs)
  have p: "0 < CheckReloadPeriod config0"
    by (simp add: inputs)
  from close_once_never_reopens [OF h, of "[Check, CallIsClosed]"]
  have 1: "\<exists>l rt. exec_steps world0 [Check, CallIsClosed] loader1 runtime1 = Inr (l, rt)
      \<and> closed l = False \<and> fst (IsClosed l rt) = False
      \<and> length (filter is_send (new_events runtime0 rt)) = 0
      \<and> (\<exists>rt'. Close l rt = Inr (l\<lparr>closed := True\<rparr>, rt')
            \<and> fst (IsClosed (l\<lparr>closed := True\<rparr>) rt')
            \<and> filter is_send (new_events rt rt')
                = (case closeChan l of None \<Rightarrow> [] | Some c \<Rightarrow> [EvSend c]))"
    by simp
  from close_once_never_reopens [OF h, of "[Check, CallClose, CallIsClosed, CallClose, Check]"] p
  have 2: "\<exists>l rt. exec_steps world0 [Check, CallClose, CallIsClosed, CallClose, Check] loader1 runtime1
               = Inr (l, rt)
      \<and> closed l \<and> fst (IsClosed l rt)
      \<and> length (filter is_send (new_events runtime0 rt)) = 1
      \<and> (\<exists>rt'. Close l rt = Inr (l\<lparr>closed := True\<rparr>, rt')
            \<and> fst (IsClosed (l\<lparr>closed := True\<rparr>) rt')
            \<and> filter is_send (new_events rt rt') = []
            \<and> l\<lparr>closed := True\<rparr> = l \<and> heap rt' = heap rt \<and> chans rt' = chans rt)"
    by simp
  from 1 2 show ?thesis by (rule conjI)
qed

text \<open>
  C9. A loader constructed with a \<open>CheckReloadPeriod\<close> that is not greater than 0 has a
  \<open>nil\<close> close channel and no goroutine. After any sequence of calls its channel is still
  \<open>nil\<close>, and \<open>Close\<close> returns (it does not block on a \<open>nil\<close> channel) having set the
  flag between \<open>Lock\<close> and \<open>Unlock\<close> and done nothing else: nothing was ever sent.
  \<open>IsClosed\<close> then returns true.
\<close>

theorem Close_without_channel:
  assumes "NewTlsCertificateLoader w cfg rt0 = ((Some l0, None), rt1)"
    and "CheckReloadPeriod cfg \<le> 0"
  shows "closeChan l0 = None \<and> EvGoRun \<notin> set (new_events rt0 rt1)
         \<and> (\<exists>l rt. exec_steps w sts l0 rt1 = Inr (l, rt)
               \<and> closeChan l = None
               \<and> Close l rt
                   = Inr (l\<lparr>closed := True\<rparr>,
                          rt\<lparr>trace := trace rt @ [EvLock, EvStoreClosed True, EvUnlock]\<rparr>)
               \<and> fst (IsClosed (l\<lparr>closed := True\<rparr>)
                        (rt\<lparr>trace := trace rt @ [EvLock, EvStoreClosed True, EvUnlock]\<rparr>))
               \<and> filter is_send (new_events rt0 rt) = [])"
proof -
  from New_inv [OF assms(1)] assms(2) have i0: "loader_inv w (length (trace rt0)) l0 rt1"
    and c0: "closeChan l0 = None"
    by simp_all
  from New_go_run [OF assms(1)] assms(2) have g: "EvGoRun \<notin> set (new_events rt0 rt1)"
    by simp
  from exec_steps_inv [OF i0, of sts]
  obtain l rt where e: "exec_steps w sts l0 rt1 = Inr (l, rt)"
    and i: "loader_inv w (length (trace rt0)) l rt"
    and k: "closeChan l = closeChan l0"
    by blast
  from k c0 have n: "closeChan l = None" by simp
  then have "closed l \<or> closeChan l = None" by simp
  note cl = Close_no_send [OF this, of rt]
  from i n have "filter is_send (new_events rt0 rt) = []"
    by (simp add: loader_inv_def new_events_def)
  with e n cl c0 g show ?thesis
    by (simp add: IsClosed_result)
qed

theorem Close_without_channel_witness:
  "NewTlsCertificateLoader world0 config_once runtime0 = ((Some loader_once, None), runtime_once)
   \<and> CheckReloadPeriod config_once \<le> 0
   \<and> closeChan loader_once = None \<and> EvGoRun \<notin> set (new_events runtime0 runtime_once)
   \<and> (\<exists>l rt. exec_steps world0 [Check, CallGetCertificate None] loader_once runtime_once = Inr (l, rt)
         \<and> closeChan l = None
         \<and> Close l rt
             = Inr (l\<lparr>closed := True\<rparr>,
                    rt\<lparr>trace := trace rt @ [EvLock, EvStoreClosed True, EvUnlock]\<rparr>)
         \<and> fst (IsClosed (l\<lparr>closed := True\<rparr>)
                  (rt\<lparr>trace := trace rt @ [EvLock, EvStoreClosed True, EvUnlock]\<rparr>))
         \<and> filter is_send (new_events runtime0 rt) = [])"
proof -
  have h: "NewTlsCertificateLoader world0 config_once runtime0 = ((Some loader_once, None), runtime_once)"
    by (simp add: NewTlsCertificateLoader_def prims inputs)
  have p: "CheckReloadPeriod config_once \<le> 0"
    by (simp add: inputs)
  from Close_without_channel [OF h p, of "[Check, CallGetCertificate None]"] h p
  show ?thesis by simp
qed

text \<open>
  C10. After a successful construction and any sequence of calls, \<open>Close\<close> returns the
  loader with \<open>closed\<close> set and every other field as it was: the certificate pointer,
  both stored modification times and the configuration. It allocates no certificate, its
  only store is the one to \<open>closed\<close>, it sends at most one element, and
  \<open>GetCertificate\<close> returns the same pointer (and error) after it as before.
\<close>

theorem Close_changes_only_closed:
  assumes "NewTlsCertificateLoader w cfg rt0 = ((Some l0, None), rt1)"
  shows "\<exists>l rt l' rt'. exec_steps w sts l0 rt1 = Inr (l, rt)
           \<and> Close l rt = Inr (l', rt')
           \<and> l' = l\<lparr>closed := True\<rparr>
           \<and> certificate l' = certificate l \<and> certModTime l' = certModTime l
           \<and> keyModTime l' = keyModTime l \<and> config l' = config l
           \<and> heap rt' = heap rt
           \<and> filter is_store (new_events rt rt') = [EvStoreClosed True]
           \<and> length (filter is_send (new_events rt rt')) \<le> 1
           \<and> fst (GetCertificate info l' rt') = fst (GetCertificate info l rt)"
proof -
  from New_inv [OF assms] have "loader_inv w (length (trace rt0)) l0 rt1"
    by simp
  from exec_steps_inv [OF this, of sts]
  obtain l rt where e: "exec_steps w sts l0 rt1 = Inr (l, rt)"
    and i: "loader_inv w (length (trace rt0)) l rt"
    by blast
  have "\<exists>rt'. Close l rt = Inr (l\<lparr>closed := True\<rparr>, rt')
           \<and> heap rt' = heap rt
           \<and> filter is_store (new_events rt rt') = [EvStoreClosed True]
           \<and> length (filter is_send (new_events rt rt')) \<le> 1"
  proof (cases "\<not> closed l \<and> closeChan l \<noteq> None")
    case True
    then obtain ch where ch: "closeChan l = Some ch" and o: "\<not> closed l" by auto
    show ?thesis
      unfolding Close_open_chan [OF i o ch]
      by (simp add: new_events_def)
  next
    case False
    then have f: "closed l \<or> closeChan l = None" by simp
    show ?thesis
      unfolding Close_no_send [OF f]
      by simp
  qed
  with e show ?thesis
    by (auto simp add: GetCertificate_result)
qed

theorem Close_changes_only_closed_witness:
  "NewTlsCertificateLoader world0 config0 runtime0 = ((Some loader1, None), runtime1)
   \<and> (\<exists>l rt l' rt'. exec_steps world0 [Check] loader1 runtime1 = Inr (l, rt)
         \<and> Close l rt = Inr (l', rt')
         \<and> l' = l\<lparr>closed := True\<rparr>
         \<and> certificate l' = certificate l \<and> certModTime l' = certModTime l
         \<and> keyModTime l' = keyModTime l \<and> config l' = config l
         \<and> heap rt' = heap rt
         \<and> filter is_store (new_events rt rt') = [EvStoreClosed True]
         \<and> length (filter is_send (new_events rt rt')) \<le> 1
         \<and> fst (GetCertificate None l' rt') = fst (GetCertificate None l rt))"
proof -
  have h: "NewTlsCertificateLoader world0 config0 runtime0 = ((Some loader1, None), runtime1)"
    by (simp add: NewTlsCertificateLoader_def prims inputs)
  show ?thesis
    by (rule conjI [OF h Close_changes_only_closed [OF h]])
qed

end
